theory Spec2Isabelle
  imports Complex_Main "HOL-Library.Char_ord" "HOL-Library.List_Lexorder"
begin

section \<open>JavaScript numbers\<close>

text \<open>
  A value of the TypeScript type \<open>number\<close>. Finite values are modelled as exact reals;
  the three special values of IEEE 754 that the program can meet (\<open>NaN\<close> from a failed
  \<open>parseFloat\<close>, the infinities from \<open>Math.min()\<close> and \<open>Math.max()\<close> of nothing) are
  constructors of their own. The operations of this section are exact on finite
  numbers: rounding to 53 bits and the sign of zero are outside the model, and overflow
  to infinity is added by the operations of the section on the projection with
  overflow, where it decides a property.
\<close>

datatype number = Num real | NaN | PosInfinity | NegInfinity

fun js_neg :: "number \<Rightarrow> number" where
  "js_neg (Num a) = Num (- a)"
| "js_neg NaN = NaN"
| "js_neg PosInfinity = NegInfinity"
| "js_neg NegInfinity = PosInfinity"

fun js_add :: "number \<Rightarrow> number \<Rightarrow> number" where
  "js_add (Num a) (Num b) = Num (a + b)"
| "js_add NaN _ = NaN"
| "js_add _ NaN = NaN"
| "js_add PosInfinity NegInfinity = NaN"
| "js_add NegInfinity PosInfinity = NaN"
| "js_add PosInfinity _ = PosInfinity"
| "js_add _ PosInfinity = PosInfinity"
| "js_add NegInfinity _ = NegInfinity"
| "js_add _ NegInfinity = NegInfinity"

definition js_sub :: "number \<Rightarrow> number \<Rightarrow> number" where
  "js_sub a b = js_add a (js_neg b)"

text \<open>The sign of an infinite product or quotient: \<open>s\<close> is the sign of the finite operand.\<close>

definition signed_inf :: "real \<Rightarrow> number" where
  "signed_inf s = (if s = 0 then NaN else if 0 < s then PosInfinity else NegInfinity)"

fun js_mul :: "number \<Rightarrow> number \<Rightarrow> number" where
  "js_mul (Num a) (Num b) = Num (a * b)"
| "js_mul NaN _ = NaN"
| "js_mul _ NaN = NaN"
| "js_mul (Num a) PosInfinity = signed_inf a"
| "js_mul (Num a) NegInfinity = signed_inf (- a)"
| "js_mul PosInfinity (Num b) = signed_inf b"
| "js_mul NegInfinity (Num b) = signed_inf (- b)"
| "js_mul PosInfinity PosInfinity = PosInfinity"
| "js_mul NegInfinity NegInfinity = PosInfinity"
| "js_mul PosInfinity NegInfinity = NegInfinity"
| "js_mul NegInfinity PosInfinity = NegInfinity"

text \<open>
  Division. A finite non-zero number over zero is an infinity (of the dividend's sign,
  the zero being taken as \<open>+0\<close>), zero over zero is \<open>NaN\<close>.
\<close>

fun js_div :: "number \<Rightarrow> number \<Rightarrow> number" where
  "js_div (Num a) (Num b) = (if b = 0 then signed_inf a else Num (a / b))"
| "js_div NaN _ = NaN"
| "js_div _ NaN = NaN"
| "js_div (Num a) PosInfinity = Num 0"
| "js_div (Num a) NegInfinity = Num 0"
| "js_div PosInfinity (Num b) = (if 0 \<le> b then PosInfinity else NegInfinity)"
| "js_div NegInfinity (Num b) = (if 0 \<le> b then NegInfinity else PosInfinity)"
| "js_div PosInfinity PosInfinity = NaN"
| "js_div PosInfinity NegInfinity = NaN"
| "js_div NegInfinity PosInfinity = NaN"
| "js_div NegInfinity NegInfinity = NaN"

text \<open>The comparison \<open>a < b\<close>: false as soon as one side is \<open>NaN\<close>.\<close>

fun js_lt :: "number \<Rightarrow> number \<Rightarrow> bool" where
  "js_lt (Num a) (Num b) = (a < b)"
| "js_lt NaN _ = False"
| "js_lt _ NaN = False"
| "js_lt NegInfinity NegInfinity = False"
| "js_lt NegInfinity _ = True"
| "js_lt _ NegInfinity = False"
| "js_lt PosInfinity _ = False"
| "js_lt _ PosInfinity = True"

definition js_gt :: "number \<Rightarrow> number \<Rightarrow> bool" where
  "js_gt a b = js_lt b a"

text \<open>\<open>ToBoolean\<close> of a number: zero and \<open>NaN\<close> are falsy, everything else is truthy.\<close>

fun truthy :: "number \<Rightarrow> bool" where
  "truthy (Num a) = (a \<noteq> 0)"
| "truthy NaN = False"
| "truthy PosInfinity = True"
| "truthy NegInfinity = True"

text \<open>\<open>a || b\<close> on numbers.\<close>

definition js_or :: "number \<Rightarrow> number \<Rightarrow> number" where
  "js_or a b = (if truthy a then a else b)"

text \<open>
  \<open>Math.min(...xs)\<close> and \<open>Math.max(...xs)\<close>: \<open>NaN\<close> if an argument is \<open>NaN\<close>, otherwise the
  least (greatest) argument, starting from \<open>+Infinity\<close> (\<open>-Infinity\<close>).
\<close>

definition Math_min :: "number list \<Rightarrow> number" where
  "Math_min xs =
     (if NaN \<in> set xs then NaN
      else fold (\<lambda>x lowest. if js_lt x lowest then x else lowest) xs PosInfinity)"

definition Math_max :: "number list \<Rightarrow> number" where
  "Math_max xs =
     (if NaN \<in> set xs then NaN
      else fold (\<lambda>x highest. if js_lt highest x then x else highest) xs NegInfinity)"

section \<open>The data model of \<open>App.tsx\<close>\<close>

text \<open>
  The interfaces of the source, with the fields that the map, the log sheet and the date
  list read. The fields that only the summary panel shows (timestamps, foreign keys) are
  left to the records' extension slot.
\<close>

record LocationCoordinate =
  lat :: number
  lng :: number

record DriverInfo =
  full_name :: string
  license_number :: string

record RestStop =
  location :: LocationCoordinate

datatype duty_status_t = on_duty | driving | off_duty | sleeper_berth

text \<open>The string behind each member of the union type of \<open>duty_status\<close>.\<close>

fun status_string :: "duty_status_t \<Rightarrow> string" where
  "status_string on_duty = ''on_duty''"
| "status_string driving = ''driving''"
| "status_string off_duty = ''off_duty''"
| "status_string sleeper_berth = ''sleeper_berth''"

record ELDLog =
  log_date :: string
  duty_status :: duty_status_t
  start_time :: string
  end_time :: string
  duration_hours :: number
  remarks :: string

record TripResponse =
  trip_id :: number
  driver_info :: DriverInfo
  current_location :: LocationCoordinate
  pickup_location :: LocationCoordinate
  dropoff_location :: LocationCoordinate
  route_coordinates :: "(number \<times> number) list"
  rest_stops :: "RestStop list"
  eld_logs :: "ELDLog list"

record AppState =
  tripData :: "TripResponse option"

section \<open>The dates of the log sheets: \<open>getUniqueDates\<close>\<close>

text \<open>
  \<open>[...new Set(dates)]\<close>: a \<open>Set\<close> keeps each value once, at the place of its first
  insertion, and the spread lists it in insertion order.
\<close>

definition Set_spread :: "'a list \<Rightarrow> 'a list" where
  "Set_spread xs = fold (\<lambda>x s. if x \<in> set s then s else s @ [x]) xs []"

text \<open>
  \<open>Array.prototype.sort()\<close> with no comparator, on strings: ascending in the order of the
  code units. The standard fixes the result (a stable sorted permutation), not the
  algorithm; insertion sort stands for it. Strings are byte lists here, compared
  lexicographically.
\<close>

fun sort_insert :: "string \<Rightarrow> string list \<Rightarrow> string list" where
  "sort_insert x [] = [x]"
| "sort_insert x (y # ys) = (if y \<le> x then y # sort_insert x ys else x # y # ys)"

definition js_sort :: "string list \<Rightarrow> string list" where
  "js_sort xs = foldl (\<lambda>acc x. sort_insert x acc) [] xs"

definition getUniqueDates :: "AppState \<Rightarrow> string list" where
  "getUniqueDates state =
     (case tripData state of
        None \<Rightarrow> []
      | Some t \<Rightarrow> (let dates = map log_date (eld_logs t) in js_sort (Set_spread dates)))"

section \<open>Strings\<close>

text \<open>The decimal digits of a natural number, as \<open>String(n)\<close> writes an array index.\<close>

definition digit_char :: "nat \<Rightarrow> char" where
  "digit_char d = ''0123456789'' ! d"

fun show_nat :: "nat \<Rightarrow> string" where
  "show_nat n = (if n < 10 then [digit_char n] else show_nat (n div 10) @ [digit_char (n mod 10)])"

declare show_nat.simps [simp del]

text \<open>\<open>i.toString().padStart(2, '0')\<close> for an integer \<open>i \<ge> 0\<close>.\<close>

definition padStart2 :: "string \<Rightarrow> string" where
  "padStart2 s = replicate (2 - length s) (CHR ''0'') @ s"

text \<open>\<open>s.split(sep)\<close> for a separator of one character.\<close>

fun split :: "char \<Rightarrow> string \<Rightarrow> string list" where
  "split sep [] = [[]]"
| "split sep (c # cs) =
     (if c = sep then [] # split sep cs
      else (case split sep cs of p # ps \<Rightarrow> (c # p) # ps | [] \<Rightarrow> [[c]]))"

text \<open>Reading an array element: \<open>None\<close> is \<open>undefined\<close>, the value of an index out of range.\<close>

definition element :: "'a list \<Rightarrow> nat \<Rightarrow> 'a option" where
  "element xs i = (if i < length xs then Some (xs ! i) else None)"

definition is_digit :: "char \<Rightarrow> bool" where
  "is_digit c = (c \<in> set ''0123456789'')"

definition is_space :: "char \<Rightarrow> bool" where
  "is_space c = (c \<in> set [CHR '' '', CHR 0x09, CHR 0x0A, CHR 0x0B, CHR 0x0C, CHR 0x0D])"

definition digit_value :: "char \<Rightarrow> nat" where
  "digit_value c = of_char c - 48"

definition digits_value :: "string \<Rightarrow> nat" where
  "digits_value ds = foldl (\<lambda>acc d. 10 * acc + digit_value d) 0 ds"

text \<open>
  The exponent part of a decimal literal: \<open>e\<close> or \<open>E\<close>, an optional sign and at least
  one digit; anything else is no exponent.
\<close>

definition exponent_part :: "string \<Rightarrow> int" where
  "exponent_part s =
     (case s of
        [] \<Rightarrow> 0
      | c # r \<Rightarrow>
          (if c = CHR ''e'' \<or> c = CHR ''E'' then
             (case r of
                [] \<Rightarrow> 0
              | d # r' \<Rightarrow>
                  (if d = CHR ''-'' then
                     (if takeWhile is_digit r' = [] then 0
                      else - int (digits_value (takeWhile is_digit r')))
                   else if d = CHR ''+'' then int (digits_value (takeWhile is_digit r'))
                   else int (digits_value (takeWhile is_digit r))))
           else 0))"

definition scale10 :: "real \<Rightarrow> int \<Rightarrow> real" where
  "scale10 m e = (if 0 \<le> e then m * 10 ^ nat e else m / 10 ^ nat (- e))"

text \<open>
  \<open>parseFloat\<close>: leading white space is skipped, then the longest prefix that is a
  decimal literal is read (a sign, then \<open>Infinity\<close> or digits with an optional fraction
  and exponent); what follows is ignored. Without such a prefix the result is \<open>NaN\<close>.
  Only the white space of ASCII is recognised here.
\<close>

definition parseFloat :: "string \<Rightarrow> number" where
  "parseFloat s =
     (let t = dropWhile is_space s;
          negative = (t \<noteq> [] \<and> hd t = CHR ''-'');
          t = (if t \<noteq> [] \<and> (hd t = CHR ''-'' \<or> hd t = CHR ''+'') then tl t else t)
      in if take 8 t = ''Infinity'' then (if negative then NegInfinity else PosInfinity)
         else
           (let ip = takeWhile is_digit t;
                r1 = dropWhile is_digit t;
                has_point = (r1 \<noteq> [] \<and> hd r1 = CHR ''.'');
                fp = (if has_point then takeWhile is_digit (tl r1) else []);
                r2 = (if has_point then dropWhile is_digit (tl r1) else r1)
            in if ip = [] \<and> fp = [] then NaN
               else
                 (let m = real (digits_value ip) + real (digits_value fp) / 10 ^ length fp;
                      v = scale10 m (exponent_part r2)
                  in Num (if negative then - v else v))))"

text \<open>\<open>parseFloat(parts[i])\<close>: an \<open>undefined\<close> argument is first turned into a string.\<close>

definition parseFloat_element :: "string list \<Rightarrow> nat \<Rightarrow> number" where
  "parseFloat_element parts i =
     (case element parts i of None \<Rightarrow> parseFloat ''undefined'' | Some s \<Rightarrow> parseFloat s)"

section \<open>The drawing surface\<close>

text \<open>
  The canvas element together with its 2D context, after the HTML standard. The context
  state holds the attributes the program assigns; the transformation, the clip and the
  other attributes are never touched by the program and stay at their defaults. The
  bitmap is kept as the list of painting operations applied since it was last blank:
  equal lists show equal pixels.
\<close>

datatype pathcmd = MoveTo real real | LineTo real real | Arc real real real real real

datatype paint =
    FillRect string real real real real
  | ClearRect real real real real
  | Fill string "pathcmd list"
  | Stroke string real "pathcmd list"
  | FillText string string string string real real

record canvas =
  width :: nat
  height :: nat
  fillStyle :: string
  strokeStyle :: string
  lineWidth :: real
  font :: string
  textAlign :: string
  path :: "pathcmd list"
  bitmap :: "paint list"

text \<open>
  Assigning \<open>canvas.width\<close> or \<open>canvas.height\<close> (even to the value it has) blanks the
  bitmap and resets the context to its default state.
\<close>

definition reset_context :: "nat \<Rightarrow> nat \<Rightarrow> canvas" where
  "reset_context w h =
     \<lparr>width = w, height = h, fillStyle = ''#000000'', strokeStyle = ''#000000'',
      lineWidth = 1, font = ''10px sans-serif'', textAlign = ''start'',
      path = [], bitmap = []\<rparr>"

definition set_width :: "nat \<Rightarrow> canvas \<Rightarrow> canvas" where
  "set_width w c = reset_context w (height c)"

definition set_height :: "nat \<Rightarrow> canvas \<Rightarrow> canvas" where
  "set_height h c = reset_context (width c) h"

text \<open>\<open>ctx.lineWidth = w\<close>: zero, negative and non-finite values are ignored.\<close>

definition set_lineWidth :: "number \<Rightarrow> canvas \<Rightarrow> canvas" where
  "set_lineWidth w c = (case w of Num a \<Rightarrow> (if 0 < a then c\<lparr>lineWidth := a\<rparr> else c) | _ \<Rightarrow> c)"

text \<open>
  The path methods return at once when an argument is infinite or \<open>NaN\<close>. \<open>lineTo\<close> on
  a path with no subpath only starts one at its point.
\<close>

definition beginPath :: "canvas \<Rightarrow> canvas" where
  "beginPath c = c\<lparr>path := []\<rparr>"

definition path_moveTo :: "number \<Rightarrow> number \<Rightarrow> pathcmd list \<Rightarrow> pathcmd list" where
  "path_moveTo x y p = (case (x, y) of (Num a, Num b) \<Rightarrow> p @ [MoveTo a b] | _ \<Rightarrow> p)"

definition path_lineTo :: "number \<Rightarrow> number \<Rightarrow> pathcmd list \<Rightarrow> pathcmd list" where
  "path_lineTo x y p =
     (case (x, y) of
        (Num a, Num b) \<Rightarrow> (if p = [] then [MoveTo a b] else p @ [LineTo a b])
      | _ \<Rightarrow> p)"

text \<open>The program passes the radius and the angles as constants; a negative radius would throw.\<close>

definition path_arc :: "number \<Rightarrow> number \<Rightarrow> real \<Rightarrow> real \<Rightarrow> real \<Rightarrow> pathcmd list \<Rightarrow> pathcmd list" where
  "path_arc x y r a0 a1 p = (case (x, y) of (Num a, Num b) \<Rightarrow> p @ [Arc a b r a0 a1] | _ \<Rightarrow> p)"

definition moveTo :: "number \<Rightarrow> number \<Rightarrow> canvas \<Rightarrow> canvas" where
  "moveTo x y c = c\<lparr>path := path_moveTo x y (path c)\<rparr>"

definition lineTo :: "number \<Rightarrow> number \<Rightarrow> canvas \<Rightarrow> canvas" where
  "lineTo x y c = c\<lparr>path := path_lineTo x y (path c)\<rparr>"

definition arc :: "number \<Rightarrow> number \<Rightarrow> real \<Rightarrow> real \<Rightarrow> real \<Rightarrow> canvas \<Rightarrow> canvas" where
  "arc x y r a0 a1 c = c\<lparr>path := path_arc x y r a0 a1 (path c)\<rparr>"

definition stroke :: "canvas \<Rightarrow> canvas" where
  "stroke c = c\<lparr>bitmap := bitmap c @ [Stroke (strokeStyle c) (lineWidth c) (path c)]\<rparr>"

definition fill :: "canvas \<Rightarrow> canvas" where
  "fill c = c\<lparr>bitmap := bitmap c @ [Fill (fillStyle c) (path c)]\<rparr>"

text \<open>
  The rectangle and text methods also return at once on a non-finite argument, and the
  rectangle methods on a zero width or height. A \<open>clearRect\<close> that covers the whole
  bitmap leaves it blank.
\<close>

definition fillRect :: "number \<Rightarrow> number \<Rightarrow> number \<Rightarrow> number \<Rightarrow> canvas \<Rightarrow> canvas" where
  "fillRect x y w h c =
     (case (x, y, w, h) of
        (Num a, Num b, Num d, Num e) \<Rightarrow>
          (if d = 0 \<or> e = 0 then c
           else c\<lparr>bitmap := bitmap c @ [FillRect (fillStyle c) a b d e]\<rparr>)
      | _ \<Rightarrow> c)"

definition clearRect :: "number \<Rightarrow> number \<Rightarrow> number \<Rightarrow> number \<Rightarrow> canvas \<Rightarrow> canvas" where
  "clearRect x y w h c =
     (case (x, y, w, h) of
        (Num a, Num b, Num d, Num e) \<Rightarrow>
          (if a \<le> 0 \<and> b \<le> 0 \<and> real (width c) \<le> a + d \<and> real (height c) \<le> b + e
           then c\<lparr>bitmap := []\<rparr>
           else if d = 0 \<or> e = 0 then c
           else c\<lparr>bitmap := bitmap c @ [ClearRect a b d e]\<rparr>)
      | _ \<Rightarrow> c)"

definition fillText :: "string \<Rightarrow> number \<Rightarrow> number \<Rightarrow> canvas \<Rightarrow> canvas" where
  "fillText text x y c =
     (case (x, y) of
        (Num a, Num b) \<Rightarrow>
          c\<lparr>bitmap := bitmap c @ [FillText (fillStyle c) (font c) (textAlign c) text a b]\<rparr>
      | _ \<Rightarrow> c)"

text \<open>\<open>canvas.width\<close> and \<open>canvas.height\<close> read as numbers.\<close>

definition canvas_width :: "canvas \<Rightarrow> number" where
  "canvas_width c = Num (real (width c))"

definition canvas_height :: "canvas \<Rightarrow> number" where
  "canvas_height c = Num (real (height c))"

section \<open>The route map: \<open>MapView\<close>\<close>

text \<open>
  \<open>toCanvas\<close> is a closure over the canvas and the bounds of \<open>route_coordinates\<close>; here
  it takes both as arguments.
\<close>

definition toCanvas :: "canvas \<Rightarrow> (number \<times> number) list \<Rightarrow> number \<Rightarrow> number \<Rightarrow> number \<times> number" where
  "toCanvas canvas route la lg =
     (let lats = map fst route;
          lngs = map snd route;
          minLat = Math_min lats;
          maxLat = Math_max lats;
          minLng = Math_min lngs;
          maxLng = Math_max lngs;
          latRange = js_or (js_sub maxLat minLat) (Num 1);
          lngRange = js_or (js_sub maxLng minLng) (Num 1);
          padding = Num 40;
          x = js_add padding
                (js_mul (js_div (js_sub lg minLng) lngRange)
                   (js_sub (canvas_width canvas) (js_mul (Num 2) padding)));
          y = js_add padding
                (js_mul (js_div (js_sub maxLat la) latRange)
                   (js_sub (canvas_height canvas) (js_mul (Num 2) padding)))
      in (x, y))"

definition drawMarker ::
  "(number \<times> number) list \<Rightarrow> number \<Rightarrow> number \<Rightarrow> string \<Rightarrow> string \<Rightarrow> canvas \<Rightarrow> canvas" where
  "drawMarker route la lg color label ctx =
     (let (x, y) = toCanvas ctx route la lg;
          ctx = ctx\<lparr>fillStyle := color\<rparr>;
          ctx = beginPath ctx;
          ctx = arc x y 8 0 (2 * pi) ctx;
          ctx = fill ctx;
          ctx = ctx\<lparr>fillStyle := ''white''\<rparr>;
          ctx = beginPath ctx;
          ctx = arc x y 4 0 (2 * pi) ctx;
          ctx = fill ctx;
          ctx = ctx\<lparr>fillStyle := ''#1f2937''\<rparr>;
          ctx = ctx\<lparr>font := ''bold 12px sans-serif''\<rparr>;
          ctx = ctx\<lparr>textAlign := ''center''\<rparr>
      in fillText label x (js_sub y (Num 15)) ctx)"

text \<open>One turn of \<open>rest_stops.forEach((stop, index) => ...)\<close>.\<close>

definition draw_rest_stop :: "(number \<times> number) list \<Rightarrow> nat \<times> RestStop \<Rightarrow> canvas \<Rightarrow> canvas" where
  "draw_rest_stop route is ctx =
     (let index = fst is; stop = snd is in
      if truthy (lat (location stop)) \<and> truthy (lng (location stop))
      then drawMarker route (lat (location stop)) (lng (location stop))
             ''#8b5cf6'' (''S'' @ show_nat (index + 1)) ctx
      else ctx)"

definition draw_rest_stops :: "(number \<times> number) list \<Rightarrow> RestStop list \<Rightarrow> canvas \<Rightarrow> canvas" where
  "draw_rest_stops route stops ctx =
     fold (draw_rest_stop route) (zip [0 ..< length stops] stops) ctx"

definition draw_placeholder :: "canvas \<Rightarrow> canvas" where
  "draw_placeholder ctx =
     (let ctx = ctx\<lparr>fillStyle := ''#64748b''\<rparr>;
          ctx = ctx\<lparr>font := ''16px sans-serif''\<rparr>;
          ctx = ctx\<lparr>textAlign := ''center''\<rparr>
      in fillText ''Calculate trip to see route visualization''
           (js_div (canvas_width ctx) (Num 2)) (js_div (canvas_height ctx) (Num 2)) ctx)"

definition draw_route_line :: "(number \<times> number) list \<Rightarrow> canvas \<Rightarrow> canvas" where
  "draw_route_line route ctx =
     (let ctx = ctx\<lparr>strokeStyle := ''#3b82f6''\<rparr>;
          ctx = set_lineWidth (Num 3) ctx;
          ctx = beginPath ctx;
          (startX, startY) = toCanvas ctx route
                               (fst (hd route)) (snd (hd route));
          ctx = moveTo startX startY ctx;
          ctx = fold (\<lambda>p ctx. let (x, y) = toCanvas ctx route (fst p) (snd p)
                               in lineTo x y ctx)
                  (tl route) ctx
      in stroke ctx)"

text \<open>
  The effect of \<open>MapView\<close> on a canvas. The route line is only drawn behind the guard
  \<open>route_coordinates.length\<close>, so \<open>hd\<close> and \<open>tl\<close> are taken of a non-empty list.
\<close>

definition MapView_draw :: "TripResponse option \<Rightarrow> canvas \<Rightarrow> canvas" where
  "MapView_draw trip canvas =
     (let ctx = clearRect (Num 0) (Num 0) (canvas_width canvas) (canvas_height canvas) canvas;
          ctx = ctx\<lparr>fillStyle := ''#f8fafc''\<rparr>;
          ctx = fillRect (Num 0) (Num 0) (canvas_width ctx) (canvas_height ctx) ctx
      in case trip of
           None \<Rightarrow> draw_placeholder ctx
         | Some t \<Rightarrow>
             (if route_coordinates t = [] then draw_placeholder ctx
              else
                (let r = route_coordinates t;
                     ctx = draw_route_line r ctx;
                     ctx = drawMarker r (lat (current_location t)) (lng (current_location t))
                             ''#10b981'' ''Current'' ctx;
                     ctx = drawMarker r (lat (pickup_location t)) (lng (pickup_location t))
                             ''#f59e0b'' ''Pickup'' ctx;
                     ctx = drawMarker r (lat (dropoff_location t)) (lng (dropoff_location t))
                             ''#ef4444'' ''Dropoff'' ctx
                 in draw_rest_stops r (rest_stops t) ctx)))"

text \<open>
  The effect hook: without a canvas element (or without a 2D context) it returns before
  it draws.
\<close>

definition MapView_effect :: "TripResponse option \<Rightarrow> canvas option \<Rightarrow> canvas option" where
  "MapView_effect trip canvasRef =
     (case canvasRef of None \<Rightarrow> None | Some canvas \<Rightarrow> Some (MapView_draw trip canvas))"

section \<open>The projection with overflow\<close>

text \<open>
  The arithmetic above is exact on finite numbers. A double is bounded: a result whose
  magnitude reaches \<open>2^1024 - 2^970\<close> (half a unit beyond the largest double) rounds to
  an infinity. \<open>to_double\<close> applies that to a result, and the operations below are
  the operations of doubles as far as the range goes; rounding within the range is
  still left out.
\<close>

definition overflow_bound :: real where
  "overflow_bound = 2 ^ 1024 - 2 ^ 970"

definition to_double :: "number \<Rightarrow> number" where
  "to_double n =
     (case n of
        Num r \<Rightarrow>
          (if overflow_bound \<le> r then PosInfinity
           else if r \<le> - overflow_bound then NegInfinity
           else Num r)
      | _ \<Rightarrow> n)"

definition dbl_add :: "number \<Rightarrow> number \<Rightarrow> number" where
  "dbl_add a b = to_double (js_add a b)"

definition dbl_sub :: "number \<Rightarrow> number \<Rightarrow> number" where
  "dbl_sub a b = to_double (js_sub a b)"

definition dbl_mul :: "number \<Rightarrow> number \<Rightarrow> number" where
  "dbl_mul a b = to_double (js_mul a b)"

definition dbl_div :: "number \<Rightarrow> number \<Rightarrow> number" where
  "dbl_div a b = to_double (js_div a b)"

text \<open>\<open>toCanvas\<close> of the source, computed with these operations.\<close>

definition toCanvas_double :: "canvas \<Rightarrow> (number \<times> number) list \<Rightarrow> number \<Rightarrow> number \<Rightarrow> number \<times> number" where
  "toCanvas_double canvas route la lg =
     (let lats = map fst route;
          lngs = map snd route;
          minLat = Math_min lats;
          maxLat = Math_max lats;
          minLng = Math_min lngs;
          maxLng = Math_max lngs;
          latRange = js_or (dbl_sub maxLat minLat) (Num 1);
          lngRange = js_or (dbl_sub maxLng minLng) (Num 1);
          padding = Num 40;
          x = dbl_add padding
                (dbl_mul (dbl_div (dbl_sub lg minLng) lngRange)
                   (dbl_sub (canvas_width canvas) (dbl_mul (Num 2) padding)));
          y = dbl_add padding
                (dbl_mul (dbl_div (dbl_sub maxLat la) latRange)
                   (dbl_sub (canvas_height canvas) (dbl_mul (Num 2) padding)))
      in (x, y))"

section \<open>The log sheet: \<open>ELDLogSheet\<close>\<close>

text \<open>
  What the program takes from the host: the formatting of a date string by
  \<open>new Date(s).toLocaleTimeString([], {hour: '2-digit', minute: '2-digit'})\<close> and by
  \<open>new Date(s).toLocaleDateString()\<close>, which depend on the locale and the time zone
  (both return the string \<open>Invalid Date\<close> for a date that does not parse, they do not
  throw), and the printing of numbers by \<open>toFixed(1)\<close> and in a template string.
\<close>

record host =
  toLocaleTimeString :: "string \<Rightarrow> string"
  toLocaleDateString :: "string \<Rightarrow> string"
  toFixed1 :: "number \<Rightarrow> string"
  number_to_string :: "number \<Rightarrow> string"

definition formatTime :: "host \<Rightarrow> string \<Rightarrow> string" where
  "formatTime h timeString = toLocaleTimeString h (''2000-01-01T'' @ timeString)"

definition formatDate :: "host \<Rightarrow> string \<Rightarrow> string" where
  "formatDate h dateString = toLocaleDateString h dateString"

definition getDutyStatusColor :: "string \<Rightarrow> string" where
  "getDutyStatusColor status =
     (if status = ''driving'' then ''#ef4444''
      else if status = ''on_duty'' then ''#f59e0b''
      else if status = ''off_duty'' then ''#10b981''
      else if status = ''sleeper_berth'' then ''#3b82f6''
      else ''#6b7280'')"

text \<open>The comment in the source announces a filter by date; the code takes all logs.\<close>

definition dailyLogs :: "TripResponse \<Rightarrow> string \<Rightarrow> ELDLog list" where
  "dailyLogs trip logDate = eld_logs trip"

text \<open>The constants of the grid. Arithmetic on these finite constants is written on reals.\<close>

definition gridY :: real where "gridY = 110"
definition gridHeight :: real where "gridHeight = 300"
definition gridWidth :: real where "gridWidth = 700"
definition startX :: real where "startX = 50"

definition statusLabels :: "string list" where
  "statusLabels = [''Off Duty'', ''Sleeper Berth'', ''Driving'', ''On Duty (Not Driving)'']"

definition draw_header :: "host \<Rightarrow> TripResponse \<Rightarrow> string \<Rightarrow> canvas \<Rightarrow> canvas" where
  "draw_header h trip logDate ctx =
     (let ctx = ctx\<lparr>fillStyle := ''white''\<rparr>;
          ctx = fillRect (Num 0) (Num 0) (canvas_width ctx) (canvas_height ctx) ctx;
          ctx = ctx\<lparr>strokeStyle := ''#000''\<rparr>;
          ctx = ctx\<lparr>fillStyle := ''#000''\<rparr>;
          ctx = set_lineWidth (Num 1) ctx;
          ctx = ctx\<lparr>font := ''bold 16px Arial''\<rparr>;
          ctx = ctx\<lparr>textAlign := ''center''\<rparr>;
          ctx = fillText ''ELECTRONIC LOGGING DEVICE (ELD) DAILY LOG''
                  (js_div (canvas_width ctx) (Num 2)) (Num 30) ctx;
          ctx = ctx\<lparr>font := ''12px Arial''\<rparr>;
          ctx = ctx\<lparr>textAlign := ''left''\<rparr>;
          driverInfo = driver_info trip;
          ctx = fillText (''Driver: '' @ (if full_name driverInfo \<noteq> [] then full_name driverInfo else ''N/A''))
                  (Num 50) (Num 60) ctx;
          ctx = fillText (''License: '' @ license_number driverInfo) (Num 300) (Num 60) ctx;
          ctx = fillText (''Date: '' @ formatDate h logDate) (Num 550) (Num 60) ctx
      in fillText (''Trip ID: '' @ number_to_string h (trip_id trip)) (Num 50) (Num 80) ctx)"

definition draw_grid :: "canvas \<Rightarrow> canvas" where
  "draw_grid ctx =
     (let ctx = beginPath ctx;
          ctx = fold (\<lambda>i ctx.
                   let y = gridY + (real i * gridHeight / 4);
                       ctx = moveTo (Num startX) (Num y) ctx
                   in lineTo (Num (startX + gridWidth)) (Num y) ctx)
                  [0 ..< 5] ctx;
          ctx = fold (\<lambda>i ctx.
                   let x = startX + (real i * gridWidth / 24);
                       ctx = moveTo (Num x) (Num gridY) ctx
                   in lineTo (Num x) (Num (gridY + gridHeight)) ctx)
                  [0 ..< 25] ctx
      in stroke ctx)"

definition draw_status_labels :: "canvas \<Rightarrow> canvas" where
  "draw_status_labels ctx =
     (let ctx = ctx\<lparr>font := ''10px Arial''\<rparr>;
          ctx = ctx\<lparr>textAlign := ''right''\<rparr>
      in fold (\<lambda>i ctx.
            let y = gridY + (real i * gridHeight / 4) + (gridHeight / 8)
            in fillText (statusLabels ! i) (Num (startX - 10)) (Num (y + 3)) ctx)
           [0 ..< 4] ctx)"

definition draw_hour_labels :: "canvas \<Rightarrow> canvas" where
  "draw_hour_labels ctx =
     (let ctx = ctx\<lparr>font := ''8px Arial''\<rparr>;
          ctx = ctx\<lparr>textAlign := ''center''\<rparr>
      in fold (\<lambda>i ctx.
            let x = startX + (real i * gridWidth / 24)
            in fillText (padStart2 (show_nat i)) (Num x) (Num (gridY - 5)) ctx)
           [0 ..< 25] ctx)"

text \<open>
  The expression of \<open>startHour\<close> and \<open>endHour\<close>:
  \<open>parseFloat(time.split(':')[0]) + parseFloat(time.split(':')[1]) / 60\<close>.
\<close>

definition fractional_hour :: "string \<Rightarrow> number" where
  "fractional_hour time =
     js_add (parseFloat_element (split (CHR '':'') time) 0)
            (js_div (parseFloat_element (split (CHR '':'') time) 1) (Num 60))"

text \<open>The \<open>switch\<close> that picks the row of a duty status.\<close>

fun statusRow :: "duty_status_t \<Rightarrow> real" where
  "statusRow off_duty = 0"
| "statusRow sleeper_berth = 1"
| "statusRow driving = 2"
| "statusRow on_duty = 3"

text \<open>One turn of the first \<open>dailyLogs.forEach\<close>: the line of a log and its time labels.\<close>

definition draw_log :: "host \<Rightarrow> ELDLog \<Rightarrow> canvas \<Rightarrow> canvas" where
  "draw_log h entry ctx =
     (let startHour = fractional_hour (start_time entry);
          endHour = fractional_hour (end_time entry);
          y = gridY + (statusRow (duty_status entry) * gridHeight / 4) + (gridHeight / 8);
          startX_line = js_add (Num startX) (js_mul (js_div startHour (Num 24)) (Num gridWidth));
          endX_line = js_add (Num startX) (js_mul (js_div endHour (Num 24)) (Num gridWidth));
          ctx = ctx\<lparr>strokeStyle := getDutyStatusColor (status_string (duty_status entry))\<rparr>;
          ctx = set_lineWidth (Num 3) ctx;
          ctx = beginPath ctx;
          ctx = moveTo startX_line (Num y) ctx;
          ctx = lineTo endX_line (Num y) ctx;
          ctx = stroke ctx;
          ctx = ctx\<lparr>fillStyle := ''#000''\<rparr>;
          ctx = ctx\<lparr>font := ''8px Arial''\<rparr>;
          ctx = ctx\<lparr>textAlign := ''center''\<rparr>;
          ctx = fillText (formatTime h (start_time entry)) startX_line (Num (y - 5)) ctx
      in if js_gt (js_sub endX_line startX_line) (Num 30)
         then fillText (formatTime h (end_time entry)) endX_line (Num (y - 5)) ctx
         else ctx)"

record totals_t =
  total_off_duty :: number
  total_sleeper_berth :: number
  total_driving :: number
  total_on_duty :: number

text \<open>\<open>totals[log.duty_status] += log.duration_hours\<close>.\<close>

definition add_total :: "ELDLog \<Rightarrow> totals_t \<Rightarrow> totals_t" where
  "add_total entry totals =
     (case duty_status entry of
        off_duty \<Rightarrow> totals\<lparr>total_off_duty := js_add (total_off_duty totals) (duration_hours entry)\<rparr>
      | sleeper_berth \<Rightarrow> totals\<lparr>total_sleeper_berth := js_add (total_sleeper_berth totals) (duration_hours entry)\<rparr>
      | driving \<Rightarrow> totals\<lparr>total_driving := js_add (total_driving totals) (duration_hours entry)\<rparr>
      | on_duty \<Rightarrow> totals\<lparr>total_on_duty := js_add (total_on_duty totals) (duration_hours entry)\<rparr>)"

definition calc_totals :: "ELDLog list \<Rightarrow> totals_t" where
  "calc_totals logs =
     fold add_total logs
       \<lparr>total_off_duty = Num 0, total_sleeper_berth = Num 0,
        total_driving = Num 0, total_on_duty = Num 0\<rparr>"

definition totalsY :: real where "totalsY = gridY + gridHeight + 30"

definition draw_totals :: "host \<Rightarrow> totals_t \<Rightarrow> canvas \<Rightarrow> canvas" where
  "draw_totals h totals ctx =
     (let ctx = ctx\<lparr>strokeStyle := ''#000''\<rparr>;
          ctx = set_lineWidth (Num 1) ctx;
          ctx = ctx\<lparr>fillStyle := ''#000''\<rparr>;
          ctx = ctx\<lparr>font := ''12px Arial''\<rparr>;
          ctx = ctx\<lparr>textAlign := ''left''\<rparr>;
          ctx = fillText ''TOTALS:'' (Num 50) (Num totalsY) ctx;
          ctx = fillText (''Off Duty: '' @ toFixed1 h (total_off_duty totals) @ '' hrs'')
                  (Num 50) (Num (totalsY + 20)) ctx;
          ctx = fillText (''Sleeper Berth: '' @ toFixed1 h (total_sleeper_berth totals) @ '' hrs'')
                  (Num 200) (Num (totalsY + 20)) ctx;
          ctx = fillText (''Driving: '' @ toFixed1 h (total_driving totals) @ '' hrs'')
                  (Num 350) (Num (totalsY + 20)) ctx
      in fillText (''On Duty: '' @ toFixed1 h (total_on_duty totals) @ '' hrs'')
           (Num 500) (Num (totalsY + 20)) ctx)"

text \<open>One turn of the remarks loop; the state is the canvas and \<open>remarkY\<close>.\<close>

definition draw_remark :: "host \<Rightarrow> ELDLog \<Rightarrow> canvas \<times> number \<Rightarrow> canvas \<times> number" where
  "draw_remark h entry st =
     (let ctx = fst st; remarkY = snd st in
      if remarks entry \<noteq> [] \<and> js_lt remarkY (js_sub (canvas_height ctx) (Num 30))
      then (let ctx = ctx\<lparr>font := ''10px Arial''\<rparr>;
                ctx = fillText (formatTime h (start_time entry) @ '': '' @ remarks entry)
                        (Num 50) remarkY ctx
            in (ctx, js_add remarkY (Num 15)))
      else (ctx, remarkY))"

definition draw_remarks :: "host \<Rightarrow> ELDLog list \<Rightarrow> canvas \<Rightarrow> canvas" where
  "draw_remarks h logs ctx =
     (let ctx = fillText ''REMARKS:'' (Num 50) (Num (totalsY + 50)) ctx;
          remarkY = Num (totalsY + 70)
      in fst (fold (draw_remark h) logs (ctx, remarkY)))"

definition draw_signature :: "host \<Rightarrow> string \<Rightarrow> canvas \<Rightarrow> canvas" where
  "draw_signature h logDate ctx =
     (let ctx = ctx\<lparr>font := ''12px Arial''\<rparr>;
          ctx = fillText ''Driver Signature: _________________________''
                  (Num 50) (js_sub (canvas_height ctx) (Num 40)) ctx;
          ctx = fillText (''Date: '' @ formatDate h logDate)
                  (Num 400) (js_sub (canvas_height ctx) (Num 40)) ctx;
          ctx = ctx\<lparr>strokeStyle := ''#000''\<rparr>;
          ctx = set_lineWidth (Num 1) ctx
      in ctx\<lparr>fillStyle := ''#000''\<rparr>)"

text \<open>The drawing of the sheet on a canvas whose size has just been set.\<close>

definition draw_sheet :: "host \<Rightarrow> TripResponse \<Rightarrow> string \<Rightarrow> canvas \<Rightarrow> canvas" where
  "draw_sheet h trip logDate ctx =
     (let ctx = draw_header h trip logDate ctx;
          ctx = draw_grid ctx;
          ctx = draw_status_labels ctx;
          ctx = draw_hour_labels ctx;
          ctx = fold (draw_log h) (dailyLogs trip logDate) ctx;
          totals = calc_totals (dailyLogs trip logDate);
          ctx = draw_totals h totals ctx;
          ctx = draw_remarks h (dailyLogs trip logDate) ctx
      in draw_signature h logDate ctx)"

definition ELDLogSheet_draw :: "host \<Rightarrow> TripResponse \<Rightarrow> string \<Rightarrow> canvas \<Rightarrow> canvas" where
  "ELDLogSheet_draw h trip logDate canvas =
     (let canvas = set_width 800 canvas;
          canvas = set_height 600 canvas
      in draw_sheet h trip logDate canvas)"

definition ELDLogSheet_effect :: "host \<Rightarrow> TripResponse \<Rightarrow> string \<Rightarrow> canvas option \<Rightarrow> canvas option" where
  "ELDLogSheet_effect h trip logDate canvasRef =
     (case canvasRef of
        None \<Rightarrow> None
      | Some canvas \<Rightarrow> Some (ELDLogSheet_draw h trip logDate canvas))"

section \<open>What \<open>MapView\<close> paints\<close>

text \<open>
  The functions of this section describe the outcome of the drawing code as values: the
  path and the painting operations that a step leaves behind. The lemmas below relate
  them to the effectful definitions above.
\<close>

text \<open>Geographic points, as finite numbers.\<close>

definition geo :: "(real \<times> real) list \<Rightarrow> (number \<times> number) list" where
  "geo pts = map (\<lambda>p. (Num (fst p), Num (snd p))) pts"

text \<open>\<open>toCanvas\<close> reads the canvas for its size only.\<close>

definition project :: "nat \<Rightarrow> nat \<Rightarrow> (number \<times> number) list \<Rightarrow> number \<Rightarrow> number \<Rightarrow> number \<times> number" where
  "project w h route la lg = toCanvas (reset_context w h) route la lg"

definition text_paint :: "string \<Rightarrow> string \<Rightarrow> string \<Rightarrow> string \<Rightarrow> number \<Rightarrow> number \<Rightarrow> paint list" where
  "text_paint style fnt align text x y =
     (case (x, y) of (Num a, Num b) \<Rightarrow> [FillText style fnt align text a b] | _ \<Rightarrow> [])"

definition marker_path :: "number \<times> number \<Rightarrow> pathcmd list" where
  "marker_path xy = path_arc (fst xy) (snd xy) 4 0 (2 * pi) []"

definition marker_paints :: "number \<times> number \<Rightarrow> string \<Rightarrow> string \<Rightarrow> paint list" where
  "marker_paints xy color label =
     [Fill color (path_arc (fst xy) (snd xy) 8 0 (2 * pi) []),
      Fill ''white'' (path_arc (fst xy) (snd xy) 4 0 (2 * pi) [])]
     @ text_paint ''#1f2937'' ''bold 12px sans-serif'' ''center'' label
         (fst xy) (js_sub (snd xy) (Num 15))"

definition route_path :: "nat \<Rightarrow> nat \<Rightarrow> (number \<times> number) list \<Rightarrow> pathcmd list" where
  "route_path w h route =
     fold (\<lambda>p pth. path_lineTo (fst (project w h route (fst p) (snd p)))
                     (snd (project w h route (fst p) (snd p))) pth)
       (tl route)
       (path_moveTo (fst (project w h route (fst (hd route)) (snd (hd route))))
          (snd (project w h route (fst (hd route)) (snd (hd route)))) [])"

text \<open>A rest stop is handed to \<open>drawMarker\<close> when both coordinates are truthy.\<close>

definition stop_drawn :: "RestStop \<Rightarrow> bool" where
  "stop_drawn stop = (truthy (lat (location stop)) \<and> truthy (lng (location stop)))"

fun rest_stop_paints :: "nat \<Rightarrow> nat \<Rightarrow> (number \<times> number) list \<Rightarrow> nat \<Rightarrow> RestStop list \<Rightarrow> paint list" where
  "rest_stop_paints w h route index [] = []"
| "rest_stop_paints w h route index (stop # stops) =
     (if stop_drawn stop
      then marker_paints (project w h route (lat (location stop)) (lng (location stop)))
             ''#8b5cf6'' (''S'' @ show_nat (index + 1))
      else [])
     @ rest_stop_paints w h route (Suc index) stops"

fun rest_stop_path :: "nat \<Rightarrow> nat \<Rightarrow> (number \<times> number) list \<Rightarrow> RestStop list \<Rightarrow> pathcmd list \<Rightarrow> pathcmd list" where
  "rest_stop_path w h route [] pth = pth"
| "rest_stop_path w h route (stop # stops) pth =
     rest_stop_path w h route stops
       (if stop_drawn stop
        then marker_path (project w h route (lat (location stop)) (lng (location stop)))
        else pth)"

definition background_paints :: "nat \<Rightarrow> nat \<Rightarrow> paint list" where
  "background_paints w h =
     (if w = 0 \<or> h = 0 then [] else [FillRect ''#f8fafc'' 0 0 (real w) (real h)])"

definition placeholder_paints :: "nat \<Rightarrow> nat \<Rightarrow> paint list" where
  "placeholder_paints w h =
     background_paints w h
     @ [FillText ''#64748b'' ''16px sans-serif'' ''center''
          ''Calculate trip to see route visualization'' (real w / 2) (real h / 2)]"

definition route_paints :: "nat \<Rightarrow> nat \<Rightarrow> TripResponse \<Rightarrow> paint list" where
  "route_paints w h t =
     (let r = route_coordinates t in
      background_paints w h
      @ [Stroke ''#3b82f6'' 3 (route_path w h r)]
      @ marker_paints (project w h r (lat (current_location t)) (lng (current_location t)))
          ''#10b981'' ''Current''
      @ marker_paints (project w h r (lat (pickup_location t)) (lng (pickup_location t)))
          ''#f59e0b'' ''Pickup''
      @ marker_paints (project w h r (lat (dropoff_location t)) (lng (dropoff_location t)))
          ''#ef4444'' ''Dropoff''
      @ rest_stop_paints w h r 0 (rest_stops t))"

section \<open>What \<open>ELDLogSheet\<close> paints\<close>

definition hour_x :: "number \<Rightarrow> number" where
  "hour_x hour = js_add (Num startX) (js_mul (js_div hour (Num 24)) (Num gridWidth))"

definition row_y :: "duty_status_t \<Rightarrow> real" where
  "row_y status = gridY + (statusRow status * gridHeight / 4) + (gridHeight / 8)"

definition log_path :: "ELDLog \<Rightarrow> pathcmd list" where
  "log_path entry =
     path_lineTo (hour_x (fractional_hour (end_time entry))) (Num (row_y (duty_status entry)))
       (path_moveTo (hour_x (fractional_hour (start_time entry)))
          (Num (row_y (duty_status entry))) [])"

definition log_paints :: "host \<Rightarrow> ELDLog \<Rightarrow> paint list" where
  "log_paints h entry =
     [Stroke (getDutyStatusColor (status_string (duty_status entry))) 3 (log_path entry)]
     @ text_paint ''#000'' ''8px Arial'' ''center'' (formatTime h (start_time entry))
         (hour_x (fractional_hour (start_time entry))) (Num (row_y (duty_status entry) - 5))
     @ (if js_gt (js_sub (hour_x (fractional_hour (end_time entry)))
                         (hour_x (fractional_hour (start_time entry)))) (Num 30)
        then text_paint ''#000'' ''8px Arial'' ''center'' (formatTime h (end_time entry))
               (hour_x (fractional_hour (end_time entry))) (Num (row_y (duty_status entry) - 5))
        else [])"

definition totals_paints :: "host \<Rightarrow> totals_t \<Rightarrow> paint list" where
  "totals_paints h totals =
     [FillText ''#000'' ''12px Arial'' ''left'' ''TOTALS:'' 50 440,
      FillText ''#000'' ''12px Arial'' ''left''
        (''Off Duty: '' @ toFixed1 h (total_off_duty totals) @ '' hrs'') 50 460,
      FillText ''#000'' ''12px Arial'' ''left''
        (''Sleeper Berth: '' @ toFixed1 h (total_sleeper_berth totals) @ '' hrs'') 200 460,
      FillText ''#000'' ''12px Arial'' ''left''
        (''Driving: '' @ toFixed1 h (total_driving totals) @ '' hrs'') 350 460,
      FillText ''#000'' ''12px Arial'' ''left''
        (''On Duty: '' @ toFixed1 h (total_on_duty totals) @ '' hrs'') 500 460]"

fun remark_paints :: "host \<Rightarrow> nat \<Rightarrow> number \<Rightarrow> ELDLog list \<Rightarrow> paint list" where
  "remark_paints h height_px remarkY [] = []"
| "remark_paints h height_px remarkY (entry # logs) =
     (if remarks entry \<noteq> [] \<and> js_lt remarkY (js_sub (Num (real height_px)) (Num 30))
      then text_paint ''#000'' ''10px Arial'' ''left''
             (formatTime h (start_time entry) @ '': '' @ remarks entry) (Num 50) remarkY
           @ remark_paints h height_px (js_add remarkY (Num 15)) logs
      else remark_paints h height_px remarkY logs)"

definition remarks_paints :: "host \<Rightarrow> ELDLog list \<Rightarrow> paint list" where
  "remarks_paints h logs =
     [FillText ''#000'' ''12px Arial'' ''left'' ''REMARKS:'' 50 490]
     @ remark_paints h 600 (Num 510) logs"

definition signature_paints :: "host \<Rightarrow> string \<Rightarrow> paint list" where
  "signature_paints h logDate =
     [FillText ''#000'' ''12px Arial'' ''left''
        ''Driver Signature: _________________________'' 50 560,
      FillText ''#000'' ''12px Arial'' ''left'' (''Date: '' @ formatDate h logDate) 400 560]"

text \<open>The sheet before the logs are drawn: header, grid and labels on the fresh canvas.\<close>

definition draw_template :: "host \<Rightarrow> TripResponse \<Rightarrow> string \<Rightarrow> canvas" where
  "draw_template h trip logDate =
     draw_hour_labels (draw_status_labels (draw_grid
       (draw_header h trip logDate (reset_context 800 600))))"

definition sheet_paints :: "host \<Rightarrow> TripResponse \<Rightarrow> string \<Rightarrow> paint list" where
  "sheet_paints h trip logDate =
     bitmap (draw_template h trip logDate)
     @ concat (map (log_paints h) (eld_logs trip))
     @ totals_paints h (calc_totals (eld_logs trip))
     @ remarks_paints h (eld_logs trip)
     @ signature_paints h logDate"

text \<open>
  The straight line segments of a path, in drawing order. \<open>cur\<close> is the last point of
  the current subpath, if there is one.
\<close>

fun segments_from :: "(real \<times> real) option \<Rightarrow> pathcmd list \<Rightarrow> ((real \<times> real) \<times> (real \<times> real)) list" where
  "segments_from cur [] = []"
| "segments_from cur (MoveTo x y # p) = segments_from (Some (x, y)) p"
| "segments_from cur (LineTo x y # p) =
     (case cur of None \<Rightarrow> [] | Some q \<Rightarrow> [(q, (x, y))]) @ segments_from (Some (x, y)) p"
| "segments_from cur (Arc x y r a0 a1 # p) =
     (case cur of None \<Rightarrow> [] | Some q \<Rightarrow> [(q, (x + r * cos a0, y + r * sin a0))])
     @ segments_from (Some (x + r * cos a1, y + r * sin a1)) p"

text \<open>The segments that the \<open>stroke\<close> operations of a bitmap have drawn, with their colour.\<close>

fun paint_segments :: "paint \<Rightarrow> (string \<times> (real \<times> real) \<times> (real \<times> real)) list" where
  "paint_segments (Stroke style w p) = map (Pair style) (segments_from None p)"
| "paint_segments _ = []"

definition segments :: "paint list \<Rightarrow> (string \<times> (real \<times> real) \<times> (real \<times> real)) list" where
  "segments ps = concat (map paint_segments ps)"

section \<open>Example data\<close>




section \<open>Properties of \<open>getUniqueDates\<close>\<close>

lemma Set_spread_fold_set:
  "set (fold (\<lambda>x s. if x \<in> set s then s else s @ [x]) xs acc) = set acc \<union> set xs"
  by (induction xs arbitrary: acc) auto

lemma Set_spread_fold_distinct:
  "distinct acc \<Longrightarrow> distinct (fold (\<lambda>x s. if x \<in> set s then s else s @ [x]) xs acc)"
  by (induction xs arbitrary: acc) auto

lemma set_Set_spread: "set (Set_spread xs) = set xs"
  by (simp add: Set_spread_def Set_spread_fold_set)

lemma distinct_Set_spread: "distinct (Set_spread xs)"
  by (simp add: Set_spread_def Set_spread_fold_distinct)

lemma Set_spread_fold_id:
  "distinct (acc @ xs) \<Longrightarrow> fold (\<lambda>x s. if x \<in> set s then s else s @ [x]) xs acc = acc @ xs"
  by (induction xs arbitrary: acc) auto

lemma Set_spread_distinct_id: "distinct xs \<Longrightarrow> Set_spread xs = xs"
  using Set_spread_fold_id [of "[]" xs] by (simp add: Set_spread_def)

lemma set_sort_insert: "set (sort_insert x ys) = insert x (set ys)"
  by (induction ys) auto

lemma sorted_sort_insert: "sorted ys \<Longrightarrow> sorted (sort_insert x ys)"
  by (induction ys) (auto simp: set_sort_insert)

lemma distinct_sort_insert: "distinct ys \<Longrightarrow> x \<notin> set ys \<Longrightarrow> distinct (sort_insert x ys)"
  by (induction ys) (auto simp: set_sort_insert)

lemma js_sort_foldl_set:
  "set (foldl (\<lambda>acc x. sort_insert x acc) acc xs) = set acc \<union> set xs"
  by (induction xs arbitrary: acc) (auto simp: set_sort_insert)

lemma js_sort_foldl_sorted:
  "sorted acc \<Longrightarrow> sorted (foldl (\<lambda>acc x. sort_insert x acc) acc xs)"
  by (induction xs arbitrary: acc) (auto simp: sorted_sort_insert)

lemma js_sort_foldl_distinct:
  "distinct (acc @ xs) \<Longrightarrow> distinct (foldl (\<lambda>acc x. sort_insert x acc) acc xs)"
  by (induction xs arbitrary: acc) (auto simp: distinct_sort_insert set_sort_insert)

lemma set_js_sort: "set (js_sort xs) = set xs"
  by (simp add: js_sort_def js_sort_foldl_set)

lemma sorted_js_sort: "sorted (js_sort xs)"
  by (simp add: js_sort_def js_sort_foldl_sorted)

lemma distinct_js_sort: "distinct xs \<Longrightarrow> distinct (js_sort xs)"
  by (simp add: js_sort_def js_sort_foldl_distinct)

lemma js_sort_sorted_distinct_id:
  "sorted xs \<Longrightarrow> distinct xs \<Longrightarrow> js_sort xs = xs"
  by (rule sorted_distinct_set_unique)
     (simp_all add: sorted_js_sort distinct_js_sort set_js_sort)

text \<open>
  Claim C4. The date list is the ascending (lexicographic), duplicate-free sequence of
  the \<open>log_date\<close> values of the trip's logs: it is strictly increasing, holds exactly
  those values, and is the library's \<open>sort\<close> of the de-duplicated dates. With no trip
  and with no log it is empty. Taking the unique sorted values of the result again
  changes nothing.
\<close>

theorem getUniqueDates_sorted_unique:
  "sorted_wrt (<) (getUniqueDates (state\<lparr>tripData := Some t\<rparr>))
   \<and> set (getUniqueDates (state\<lparr>tripData := Some t\<rparr>)) = log_date ` set (eld_logs t)
   \<and> getUniqueDates (state\<lparr>tripData := Some t\<rparr>) = sort (remdups (map log_date (eld_logs t)))
   \<and> getUniqueDates (state\<lparr>tripData := None\<rparr>) = []
   \<and> getUniqueDates (state\<lparr>tripData := Some (t\<lparr>eld_logs := []\<rparr>)\<rparr>) = []
   \<and> js_sort (Set_spread (getUniqueDates state)) = getUniqueDates state"
proof -
  let ?ds = "map log_date (eld_logs t)"
  have sd: "sorted (js_sort (Set_spread xs)) \<and> distinct (js_sort (Set_spread xs))"
    for xs :: "string list"
    by (simp add: sorted_js_sort distinct_js_sort distinct_Set_spread)
  have strict: "sorted_wrt (<) (js_sort (Set_spread ?ds))"
    using sd [of ?ds] by (simp add: strict_sorted_iff)
  have elems: "set (js_sort (Set_spread ?ds)) = log_date ` set (eld_logs t)"
    by (simp add: set_js_sort set_Set_spread)
  have lib: "js_sort (Set_spread ?ds) = sort (remdups ?ds)"
    by (rule sorted_distinct_set_unique)
       (simp_all add: sd set_js_sort set_Set_spread)
  have empty: "js_sort (Set_spread ([] :: string list)) = []"
    by (simp add: js_sort_def Set_spread_def)
  have idem: "js_sort (Set_spread (js_sort (Set_spread xs))) = js_sort (Set_spread xs)"
    for xs :: "string list"
    using sd [of xs] by (simp add: Set_spread_distinct_id js_sort_sorted_distinct_id)
  have idem_state: "js_sort (Set_spread (getUniqueDates state)) = getUniqueDates state"
    by (cases "tripData state") (simp_all add: getUniqueDates_def empty idem)
  show ?thesis
    using strict elems lib empty idem_state
    by (simp add: getUniqueDates_def)
qed

section \<open>Properties of \<open>MapView\<close>\<close>

lemma fold_min_Num:
  "fold (\<lambda>x lowest. if js_lt x lowest then x else lowest) (map Num rs) (Num a) = Num (fold min rs a)"
  by (induction rs arbitrary: a) (auto simp: min_def)

lemma fold_max_Num:
  "fold (\<lambda>x highest. if js_lt highest x then x else highest) (map Num rs) (Num a) = Num (fold max rs a)"
  by (induction rs arbitrary: a) (auto simp: max_def)

lemma Math_min_Num: "rs \<noteq> [] \<Longrightarrow> Math_min (map Num rs) = Num (Min (set rs))"
proof (cases rs)
  case Nil
  assume "rs \<noteq> []"
  with Nil show ?thesis by simp
next
  case (Cons r rs')
  have "NaN \<notin> set (map Num rs)" by auto
  moreover have "Min (set (r # rs')) = fold min rs' r" by (rule Min.set_eq_fold)
  ultimately show ?thesis
    unfolding Cons by (simp add: Math_min_def fold_min_Num del: set_map)
qed

lemma Math_max_Num: "rs \<noteq> [] \<Longrightarrow> Math_max (map Num rs) = Num (Max (set rs))"
proof (cases rs)
  case Nil
  assume "rs \<noteq> []"
  with Nil show ?thesis by simp
next
  case (Cons r rs')
  have "NaN \<notin> set (map Num rs)" by auto
  moreover have "Max (set (r # rs')) = fold max rs' r" by (rule Max.set_eq_fold)
  ultimately show ?thesis
    unfolding Cons by (simp add: Math_max_def fold_max_Num del: set_map)
qed


lemma toCanvas_geo:
  assumes "pts \<noteq> []"
  shows "toCanvas c (geo pts) (Num la) (Num lg) =
     (let minLat = Min (fst ` set pts); maxLat = Max (fst ` set pts);
          minLng = Min (snd ` set pts); maxLng = Max (snd ` set pts);
          latRange = (if maxLat - minLat = 0 then 1 else maxLat - minLat);
          lngRange = (if maxLng - minLng = 0 then 1 else maxLng - minLng);
          P = 40; W = real (width c); H = real (height c)
      in (Num (P + (lg - minLng) / lngRange * (W - 2 * P)),
          Num (P + (maxLat - la) / latRange * (H - 2 * P))))"
proof -
  have lats: "map fst (geo pts) = map Num (map fst pts)"
    and lngs: "map snd (geo pts) = map Num (map snd pts)"
    by (simp_all add: geo_def comp_def)
  have ne: "map fst pts \<noteq> []" "map snd pts \<noteq> []" using assms by simp_all
  have b: "Math_min (map fst (geo pts)) = Num (Min (fst ` set pts))"
      "Math_max (map fst (geo pts)) = Num (Max (fst ` set pts))"
      "Math_min (map snd (geo pts)) = Num (Min (snd ` set pts))"
      "Math_max (map snd (geo pts)) = Num (Max (snd ` set pts))"
    unfolding lats lngs
    using Math_min_Num [OF ne(1)] Math_max_Num [OF ne(1)]
      Math_min_Num [OF ne(2)] Math_max_Num [OF ne(2)] by simp_all
  show ?thesis
    unfolding toCanvas_def Let_def b
    by (simp add: js_sub_def js_or_def canvas_width_def canvas_height_def)
qed


lemma toCanvas_project: "toCanvas c r la lg = project (width c) (height c) r la lg"
  by (simp add: project_def toCanvas_def canvas_width_def canvas_height_def reset_context_def)

lemma drawMarker_eq:
  "drawMarker r la lg col lab c =
     c\<lparr>fillStyle := ''#1f2937'', font := ''bold 12px sans-serif'', textAlign := ''center'',
       path := marker_path (project (width c) (height c) r la lg),
       bitmap := bitmap c @ marker_paints (project (width c) (height c) r la lg) col lab\<rparr>"
  by (cases "project (width c) (height c) r la lg")
     (auto simp: drawMarker_def toCanvas_project marker_path_def marker_paints_def
        text_paint_def Let_def beginPath_def arc_def fill_def fillText_def
        split: number.splits)

lemma lineTo_fold:
  "fold (\<lambda>p ctx. lineTo (fst (project (width ctx) (height ctx) r (fst p) (snd p)))
                     (snd (project (width ctx) (height ctx) r (fst p) (snd p))) ctx) ps c =
   c\<lparr>path := fold (\<lambda>p pth. path_lineTo (fst (project (width c) (height c) r (fst p) (snd p)))
                     (snd (project (width c) (height c) r (fst p) (snd p))) pth) ps (path c)\<rparr>"
  by (induction ps arbitrary: c) (simp_all add: lineTo_def)

lemma draw_route_line_eq:
  "draw_route_line r c =
     c\<lparr>strokeStyle := ''#3b82f6'', lineWidth := 3,
       path := route_path (width c) (height c) r,
       bitmap := bitmap c @ [Stroke ''#3b82f6'' 3 (route_path (width c) (height c) r)]\<rparr>"
  by (simp add: draw_route_line_def toCanvas_project lineTo_fold route_path_def
        set_lineWidth_def beginPath_def moveTo_def stroke_def split_beta Let_def)


lemma draw_rest_stops_fold:
  assumes "fillStyle c = ''#1f2937''" "font c = ''bold 12px sans-serif''" "textAlign c = ''center''"
  shows "fold (draw_rest_stop r) (zip [i ..< i + length stops] stops) c =
     c\<lparr>path := rest_stop_path (width c) (height c) r stops (path c),
       bitmap := bitmap c @ rest_stop_paints (width c) (height c) r i stops\<rparr>"
  using assms
proof (induction stops arbitrary: i c)
  case Nil
  then show ?case by simp
next
  case (Cons stop stops)
  have "[i ..< Suc (i + length stops)] = i # [Suc i ..< Suc (i + length stops)]"
    by (rule upt_conv_Cons) simp
  then have z: "zip [i ..< i + length (stop # stops)] (stop # stops) =
           (i, stop) # zip [Suc i ..< Suc i + length stops] stops"
    by (simp del: upt_Suc)
  show ?case
  proof (cases "stop_drawn stop")
    case True
    let ?d = "draw_rest_stop r (i, stop) c"
    have d: "?d = c\<lparr>path := marker_path (project (width c) (height c) r (lat (location stop)) (lng (location stop))),
                     bitmap := bitmap c @ marker_paints (project (width c) (height c) r (lat (location stop)) (lng (location stop)))
                        ''#8b5cf6'' (''S'' @ show_nat (i + 1))\<rparr>"
      using True Cons.prems
      by (simp add: draw_rest_stop_def stop_drawn_def drawMarker_eq)
    have "fold (draw_rest_stop r) (zip [Suc i ..< Suc i + length stops] stops) ?d =
          ?d\<lparr>path := rest_stop_path (width ?d) (height ?d) r stops (path ?d),
              bitmap := bitmap ?d @ rest_stop_paints (width ?d) (height ?d) r (Suc i) stops\<rparr>"
      by (rule Cons.IH) (simp_all add: d Cons.prems)
    then show ?thesis
      unfolding z by (simp add: d True)
  next
    case False
    have d: "draw_rest_stop r (i, stop) c = c"
      using False by (auto simp: draw_rest_stop_def stop_drawn_def)
    show ?thesis
      unfolding z using Cons.IH [OF Cons.prems, of "Suc i"] by (simp add: d False)
  qed
qed

lemma draw_rest_stops_eq:
  assumes "fillStyle c = ''#1f2937''" "font c = ''bold 12px sans-serif''" "textAlign c = ''center''"
  shows "draw_rest_stops r stops c =
     c\<lparr>path := rest_stop_path (width c) (height c) r stops (path c),
       bitmap := bitmap c @ rest_stop_paints (width c) (height c) r 0 stops\<rparr>"
  using draw_rest_stops_fold [OF assms, of r 0 stops] by (simp add: draw_rest_stops_def)

lemma MapView_background:
  "fillRect (Num 0) (Num 0) (Num (real (width c))) (Num (real (height c)))
     ((clearRect (Num 0) (Num 0) (Num (real (width c))) (Num (real (height c))) c)\<lparr>fillStyle := ''#f8fafc''\<rparr>) =
   c\<lparr>fillStyle := ''#f8fafc'', bitmap := background_paints (width c) (height c)\<rparr>"
  by (simp add: fillRect_def clearRect_def background_paints_def)

lemma clearRect_dims [simp]:
  "width (clearRect x y w h c) = width c" "height (clearRect x y w h c) = height c"
  by (simp_all add: clearRect_def split: number.splits)

lemma draw_placeholder_eq:
  "draw_placeholder c =
     c\<lparr>fillStyle := ''#64748b'', font := ''16px sans-serif'', textAlign := ''center'',
       bitmap := bitmap c @ [FillText ''#64748b'' ''16px sans-serif'' ''center''
          ''Calculate trip to see route visualization'' (real (width c) / 2) (real (height c) / 2)]\<rparr>"
  by (simp add: draw_placeholder_def fillText_def canvas_width_def canvas_height_def)

lemma MapView_draw_placeholder:
  "trip = None \<or> (\<exists>t. trip = Some t \<and> route_coordinates t = []) \<Longrightarrow>
   MapView_draw trip c =
     c\<lparr>fillStyle := ''#64748b'', font := ''16px sans-serif'', textAlign := ''center'',
       bitmap := placeholder_paints (width c) (height c)\<rparr>"
  unfolding MapView_draw_def
  by (auto simp: Let_def canvas_width_def canvas_height_def MapView_background
       draw_placeholder_eq placeholder_paints_def)

lemma MapView_draw_route:
  "route_coordinates t \<noteq> [] \<Longrightarrow>
   MapView_draw (Some t) c =
     c\<lparr>fillStyle := ''#1f2937'', strokeStyle := ''#3b82f6'', lineWidth := 3,
       font := ''bold 12px sans-serif'', textAlign := ''center'',
       path := rest_stop_path (width c) (height c) (route_coordinates t) (rest_stops t)
                 (marker_path (project (width c) (height c) (route_coordinates t)
                    (lat (dropoff_location t)) (lng (dropoff_location t)))),
       bitmap := route_paints (width c) (height c) t\<rparr>"
  unfolding MapView_draw_def
  by (simp add: Let_def canvas_width_def canvas_height_def MapView_background
       draw_route_line_eq drawMarker_eq draw_rest_stops_eq route_paints_def)

lemma MapView_draw_idem: "MapView_draw trip (MapView_draw trip c) = MapView_draw trip c"
proof (cases "trip = None \<or> (\<exists>t. trip = Some t \<and> route_coordinates t = [])")
  case True
  show ?thesis
    by (simp add: MapView_draw_placeholder [OF True])
next
  case False
  then obtain t where t: "trip = Some t" "route_coordinates t \<noteq> []" by auto
  show ?thesis
    unfolding t(1) by (simp add: MapView_draw_route [OF t(2)])
qed

text \<open>
  Claim C2. For a non-empty sequence of geographic points, \<open>toCanvas\<close> maps a point
  \<open>(lat, lng)\<close> to \<open>x = P + (lng - minLng) / lngRange * (W - 2P)\<close> and
  \<open>y = P + (maxLat - lat) / latRange * (H - 2P)\<close>, where the bounds are the least and
  greatest coordinates of the sequence, a range of zero is replaced by 1, \<open>P = 40\<close> and
  \<open>W\<close>, \<open>H\<close> are the width and height of the canvas.
\<close>

theorem toCanvas_formula:
  assumes "pts \<noteq> []"
  shows "toCanvas canvas (geo pts) (Num la) (Num lg) =
     (let minLat = Min (fst ` set pts); maxLat = Max (fst ` set pts);
          minLng = Min (snd ` set pts); maxLng = Max (snd ` set pts);
          latRange = (if maxLat - minLat = 0 then 1 else maxLat - minLat);
          lngRange = (if maxLng - minLng = 0 then 1 else maxLng - minLng);
          P = 40; W = real (width canvas); H = real (height canvas)
      in (Num (P + (lg - minLng) / lngRange * (W - 2 * P)),
          Num (P + (maxLat - la) / latRange * (H - 2 * P))))"
  using assms by (rule toCanvas_geo)

theorem toCanvas_formula_witness:
  "[(13 / 2, 17 / 5), (73 / 10, 39 / 10)] \<noteq> ([] :: (real \<times> real) list)
   \<and> toCanvas (reset_context 600 400) (geo [(13 / 2, 17 / 5), (73 / 10, 39 / 10)])
        (Num 7) (Num (7 / 2)) = (Num 144, Num 160)"
  using toCanvas_formula [of "[(13 / 2, 17 / 5), (73 / 10, 39 / 10)]" "reset_context 600 400" 7 "7 / 2"]
  by (simp add: Let_def reset_context_def)

lemma overflow_bound_large: "2 ^ 32 < overflow_bound"
  by (simp add: overflow_bound_def)

lemma to_double_Num: "\<bar>r\<bar> < overflow_bound \<Longrightarrow> to_double (Num r) = Num r"
  by (auto simp: to_double_def)

lemma dbl_Num:
  "\<bar>a + b\<bar> < overflow_bound \<Longrightarrow> dbl_add (Num a) (Num b) = Num (a + b)"
  "\<bar>a - b\<bar> < overflow_bound \<Longrightarrow> dbl_sub (Num a) (Num b) = Num (a - b)"
  "\<bar>a * b\<bar> < overflow_bound \<Longrightarrow> dbl_mul (Num a) (Num b) = Num (a * b)"
  "b \<noteq> 0 \<Longrightarrow> \<bar>a / b\<bar> < overflow_bound \<Longrightarrow> dbl_div (Num a) (Num b) = Num (a / b)"
  by (simp_all add: dbl_add_def dbl_sub_def dbl_mul_def dbl_div_def js_sub_def to_double_Num)

lemma geo_bounds:
  assumes "pts \<noteq> []"
  shows "Math_min (map fst (geo pts)) = Num (Min (fst ` set pts))"
    and "Math_max (map fst (geo pts)) = Num (Max (fst ` set pts))"
    and "Math_min (map snd (geo pts)) = Num (Min (snd ` set pts))"
    and "Math_max (map snd (geo pts)) = Num (Max (snd ` set pts))"
proof -
  have lats: "map fst (geo pts) = map Num (map fst pts)"
    and lngs: "map snd (geo pts) = map Num (map snd pts)"
    by (simp_all add: geo_def comp_def)
  have ne: "map fst pts \<noteq> []" "map snd pts \<noteq> []" using assms by simp_all
  show "Math_min (map fst (geo pts)) = Num (Min (fst ` set pts))"
    and "Math_max (map fst (geo pts)) = Num (Max (fst ` set pts))"
    and "Math_min (map snd (geo pts)) = Num (Min (snd ` set pts))"
    and "Math_max (map snd (geo pts)) = Num (Max (snd ` set pts))"
    unfolding lats lngs
    using Math_min_Num [OF ne(1)] Math_max_Num [OF ne(1)]
      Math_min_Num [OF ne(2)] Math_max_Num [OF ne(2)] by simp_all
qed

text \<open>One coordinate of the projection, on doubles that do not overflow.\<close>

lemma coordinate_double:
  fixes d r W :: real
  assumes "0 \<le> d" "d \<le> r" "r < overflow_bound" "80 \<le> W" "W < 2 ^ 32"
  shows "\<exists>v. dbl_add (Num 40)
            (dbl_mul (dbl_div (Num d) (js_or (Num r) (Num 1)))
               (dbl_sub (Num W) (dbl_mul (Num 2) (Num 40)))) = Num v
          \<and> 0 \<le> v \<and> v \<le> W"
proof -
  define q where "q = (if r = 0 then 1 else r)"
  have B: "2 ^ 32 < overflow_bound" by (rule overflow_bound_large)
  have q: "js_or (Num r) (Num 1) = Num q" "0 < q" "d \<le> q"
    using assms(1,2) by (auto simp: js_or_def q_def)
  define f where "f = d / q"
  have f: "0 \<le> f" "f \<le> 1"
    using assms(1) q(2,3) by (simp_all add: f_def)
  have "\<bar>f\<bar> < overflow_bound" using f B by simp
  then have dv: "dbl_div (Num d) (Num q) = Num f"
    using q(2) by (simp add: dbl_Num(4) f_def)
  have m80: "dbl_mul (Num 2) (Num 40) = Num 80"
    using B by (simp add: dbl_Num(3))
  have "\<bar>W - 80\<bar> < overflow_bound" using assms(4,5) B by simp
  then have sb: "dbl_sub (Num W) (Num 80) = Num (W - 80)"
    by (simp add: dbl_Num(2))
  have p0: "0 \<le> f * (W - 80)" using f assms(4) by simp
  have p1: "f * (W - 80) \<le> 1 * (W - 80)"
    using f assms(4) by (intro mult_right_mono) simp_all
  then have "\<bar>f * (W - 80)\<bar> < overflow_bound" using p0 assms(5) B by simp
  then have ml: "dbl_mul (Num f) (Num (W - 80)) = Num (f * (W - 80))"
    by (simp add: dbl_Num(3))
  have "\<bar>40 + f * (W - 80)\<bar> < overflow_bound" using p0 p1 assms(5) B by simp
  then have ad: "dbl_add (Num 40) (Num (f * (W - 80))) = Num (40 + f * (W - 80))"
    by (simp add: dbl_Num(1))
  show ?thesis
    unfolding q(1) dv m80 sb ml ad using p0 p1 by simp
qed

text \<open>
  Claim C3, as amended. On doubles the bound needs ranges that do not overflow: for a
  non-empty point set whose latitude range and longitude range stay below the overflow
  bound (as those of all geographic coordinates do), and a point within the computed
  bounds, the projected point lies within \<open>[0, W] \<times> [0, H]\<close>. The canvas is at least
  as wide and as high as the two paddings and its size is an \<open>unsigned long\<close>; the
  canvas of \<open>MapView\<close> is 600 by 400.
\<close>

theorem toCanvas_double_within_surface:
  assumes "pts \<noteq> []"
    and "Min (fst ` set pts) \<le> la" "la \<le> Max (fst ` set pts)"
    and "Min (snd ` set pts) \<le> lg" "lg \<le> Max (snd ` set pts)"
    and "Max (fst ` set pts) - Min (fst ` set pts) < overflow_bound"
    and "Max (snd ` set pts) - Min (snd ` set pts) < overflow_bound"
    and "80 \<le> width canvas" "width canvas < 2 ^ 32"
    and "80 \<le> height canvas" "height canvas < 2 ^ 32"
  shows "\<exists>x y. toCanvas_double canvas (geo pts) (Num la) (Num lg) = (Num x, Num y)
           \<and> 0 \<le> x \<and> x \<le> real (width canvas) \<and> 0 \<le> y \<and> y \<le> real (height canvas)"
proof -
  let ?mnla = "Min (fst ` set pts)" and ?mxla = "Max (fst ` set pts)"
  let ?mnlg = "Min (snd ` set pts)" and ?mxlg = "Max (snd ` set pts)"
  have W: "80 \<le> real (width canvas)" "real (width canvas) < 2 ^ 32"
    using assms(8,9) by (simp, metis of_nat_less_iff of_nat_numeral of_nat_power)
  have H: "80 \<le> real (height canvas)" "real (height canvas) < 2 ^ 32"
    using assms(10,11) by (simp, metis of_nat_less_iff of_nat_numeral of_nat_power)
  have p: "0 < overflow_bound" using overflow_bound_large by simp
  have rla: "\<bar>?mxla - ?mnla\<bar> < overflow_bound" "\<bar>?mxla - la\<bar> < overflow_bound"
    using assms(2,3,6) by simp_all
  have rlg: "\<bar>?mxlg - ?mnlg\<bar> < overflow_bound" "\<bar>lg - ?mnlg\<bar> < overflow_bound"
    using assms(4,5,7) by simp_all
  obtain x where x: "dbl_add (Num 40)
            (dbl_mul (dbl_div (Num (lg - ?mnlg)) (js_or (Num (?mxlg - ?mnlg)) (Num 1)))
               (dbl_sub (Num (real (width canvas))) (dbl_mul (Num 2) (Num 40)))) = Num x"
      "0 \<le> x" "x \<le> real (width canvas)"
    using coordinate_double [of "lg - ?mnlg" "?mxlg - ?mnlg" "real (width canvas)"]
      assms(4,5,7) W by auto
  obtain y where y: "dbl_add (Num 40)
            (dbl_mul (dbl_div (Num (?mxla - la)) (js_or (Num (?mxla - ?mnla)) (Num 1)))
               (dbl_sub (Num (real (height canvas))) (dbl_mul (Num 2) (Num 40)))) = Num y"
      "0 \<le> y" "y \<le> real (height canvas)"
    using coordinate_double [of "?mxla - la" "?mxla - ?mnla" "real (height canvas)"]
      assms(2,3,6) H by auto
  have "toCanvas_double canvas (geo pts) (Num la) (Num lg) = (Num x, Num y)"
    unfolding toCanvas_double_def Let_def geo_bounds [OF assms(1)]
      dbl_Num(2) [OF rla(1)] dbl_Num(2) [OF rla(2)] dbl_Num(2) [OF rlg(1)] dbl_Num(2) [OF rlg(2)]
      canvas_width_def canvas_height_def x(1) y(1)
    by simp
  then show ?thesis using x(2,3) y(2,3) by blast
qed

theorem toCanvas_double_within_surface_witness:
  "[(13 / 2, 17 / 5), (73 / 10, 39 / 10)] \<noteq> ([] :: (real \<times> real) list)
   \<and> Min (fst ` set [(13 / 2, 17 / 5), (73 / 10, 39 / 10 :: real)]) \<le> (7 :: real)
   \<and> (7 :: real) \<le> Max (fst ` set [(13 / 2, 17 / 5), (73 / 10, 39 / 10 :: real)])
   \<and> Min (snd ` set [(13 / 2 :: real, 17 / 5), (73 / 10, 39 / 10)]) \<le> (7 / 2 :: real)
   \<and> (7 / 2 :: real) \<le> Max (snd ` set [(13 / 2 :: real, 17 / 5), (73 / 10, 39 / 10)])
   \<and> Max (fst ` set [(13 / 2, 17 / 5), (73 / 10, 39 / 10 :: real)])
       - Min (fst ` set [(13 / 2, 17 / 5), (73 / 10, 39 / 10 :: real)]) < overflow_bound
   \<and> Max (snd ` set [(13 / 2 :: real, 17 / 5), (73 / 10, 39 / 10)])
       - Min (snd ` set [(13 / 2 :: real, 17 / 5), (73 / 10, 39 / 10)]) < overflow_bound
   \<and> 80 \<le> width (reset_context 600 400) \<and> width (reset_context 600 400) < 2 ^ 32
   \<and> 80 \<le> height (reset_context 600 400) \<and> height (reset_context 600 400) < 2 ^ 32
   \<and> (\<exists>x y. toCanvas_double (reset_context 600 400) (geo [(13 / 2, 17 / 5), (73 / 10, 39 / 10)])
                (Num 7) (Num (7 / 2)) = (Num x, Num y)
           \<and> 0 \<le> x \<and> x \<le> real (width (reset_context 600 400))
           \<and> 0 \<le> y \<and> y \<le> real (height (reset_context 600 400)))"
proof -
  have small: "(4 / 5 :: real) < overflow_bound" "(1 / 2 :: real) < overflow_bound"
    by (simp_all add: overflow_bound_def)
  have h: "[(13 / 2, 17 / 5), (73 / 10, 39 / 10)] \<noteq> ([] :: (real \<times> real) list)"
    "Min (fst ` set [(13 / 2, 17 / 5), (73 / 10, 39 / 10 :: real)]) \<le> (7 :: real)"
    "(7 :: real) \<le> Max (fst ` set [(13 / 2, 17 / 5), (73 / 10, 39 / 10 :: real)])"
    "Min (snd ` set [(13 / 2 :: real, 17 / 5), (73 / 10, 39 / 10)]) \<le> (7 / 2 :: real)"
    "(7 / 2 :: real) \<le> Max (snd ` set [(13 / 2 :: real, 17 / 5), (73 / 10, 39 / 10)])"
    "Max (fst ` set [(13 / 2, 17 / 5), (73 / 10, 39 / 10 :: real)])
       - Min (fst ` set [(13 / 2, 17 / 5), (73 / 10, 39 / 10 :: real)]) < overflow_bound"
    "Max (snd ` set [(13 / 2 :: real, 17 / 5), (73 / 10, 39 / 10)])
       - Min (snd ` set [(13 / 2 :: real, 17 / 5), (73 / 10, 39 / 10)]) < overflow_bound"
    "80 \<le> width (reset_context 600 400)" "width (reset_context 600 400) < 2 ^ 32"
    "80 \<le> height (reset_context 600 400)" "height (reset_context 600 400) < 2 ^ 32"
    using small by (simp_all add: reset_context_def)
  show ?thesis
    using h toCanvas_double_within_surface [OF h] by blast
qed

text \<open>
  Claim C3 as stated, for every non-empty point set, fails where a range overflows. For
  the route from \<open>(-1e308, 0)\<close> to \<open>(1e308, 1)\<close> the point \<open>(-1e308, 0.5)\<close> lies within
  the bounds; \<open>maxLat - minLat\<close> and \<open>maxLat - lat\<close> are both infinite, their quotient
  is \<open>NaN\<close>, and so is \<open>y\<close>.
\<close>

theorem toCanvas_double_overflow_outside:
  "Min (fst ` set [(- (10 ^ 308), 0), (10 ^ 308, 1 :: real)]) \<le> (- (10 ^ 308) :: real)
   \<and> (- (10 ^ 308) :: real) \<le> Max (fst ` set [(- (10 ^ 308), 0), (10 ^ 308, 1 :: real)])
   \<and> Min (snd ` set [(- (10 ^ 308) :: real, 0), (10 ^ 308, 1)]) \<le> (1 / 2 :: real)
   \<and> (1 / 2 :: real) \<le> Max (snd ` set [(- (10 ^ 308) :: real, 0), (10 ^ 308, 1)])
   \<and> toCanvas_double (reset_context 600 400) (geo [(- (10 ^ 308), 0), (10 ^ 308, 1)])
        (Num (- (10 ^ 308))) (Num (1 / 2)) = (Num 300, NaN)"
proof -
  have b: "overflow_bound \<le> 2 * 10 ^ 308"
    by (simp add: overflow_bound_def)
  have s: "\<not> overflow_bound \<le> 1" "\<not> overflow_bound \<le> 1 / 2" "\<not> overflow_bound \<le> 80"
    "\<not> overflow_bound \<le> 520" "\<not> overflow_bound \<le> 260" "\<not> overflow_bound \<le> 300"
    by (simp_all add: overflow_bound_def)
  have p: "0 < overflow_bound" using overflow_bound_large by simp
  show ?thesis
    using b s p
    by (simp add: toCanvas_double_def geo_def Math_min_def Math_max_def Let_def
          dbl_add_def dbl_sub_def dbl_mul_def dbl_div_def js_sub_def js_or_def to_double_def
          canvas_width_def canvas_height_def reset_context_def)
qed

lemma project_geo:
  assumes "pts \<noteq> []"
  shows "project w h (geo pts) (Num la) (Num lg) =
     (let minLat = Min (fst ` set pts); maxLat = Max (fst ` set pts);
          minLng = Min (snd ` set pts); maxLng = Max (snd ` set pts);
          latRange = (if maxLat - minLat = 0 then 1 else maxLat - minLat);
          lngRange = (if maxLng - minLng = 0 then 1 else maxLng - minLng)
      in (Num (40 + (lg - minLng) / lngRange * (real w - 2 * 40)),
          Num (40 + (maxLat - la) / latRange * (real h - 2 * 40))))"
  unfolding project_def
  using toCanvas_geo [OF assms, of "reset_context w h" la lg]
  by (simp add: Let_def reset_context_def)

lemma MapView_draw_bitmap_update:
  "MapView_draw trip (c\<lparr>bitmap := b\<rparr>) = MapView_draw trip c"
proof (cases "trip = None \<or> (\<exists>t. trip = Some t \<and> route_coordinates t = [])")
  case True
  show ?thesis
    by (simp add: MapView_draw_placeholder [OF True])
next
  case False
  then obtain t where t: "trip = Some t" "route_coordinates t \<noteq> []" by auto
  show ?thesis
    unfolding t(1) by (simp add: MapView_draw_route [OF t(2)])
qed

text \<open>
  Claim C10. The bounds of the projection come from \<open>route_coordinates\<close> alone: the
  current, pickup and dropoff locations and the rest stops do not enter them. So there
  is a trip whose marker is drawn outside the surface: with the route from
  \<open>(6.5, 3.4)\<close> to \<open>(7.3, 3.9)\<close> and the current location \<open>(9, 7.4)\<close>, the marker
  \<open>Current\<close> of the 600 by 400 map is drawn around \<open>(4200, -640)\<close>.
\<close>

theorem MapView_marker_outside_surface:
  "toCanvas c (route_coordinates (t\<lparr>current_location := a, pickup_location := b,
       dropoff_location := d, rest_stops := rs\<rparr>)) la lg
     = toCanvas c (route_coordinates t) la lg
   \<and> Fill ''#10b981'' [Arc 4200 (- 640) 8 0 (2 * pi)]
       \<in> set (bitmap (MapView_draw
            (Some (t\<lparr>route_coordinates := geo [(13 / 2, 17 / 5), (73 / 10, 39 / 10)],
                     current_location := \<lparr>lat = Num 9, lng = Num (37 / 5)\<rparr>\<rparr>))
            (reset_context 600 400)))
   \<and> FillText ''#1f2937'' ''bold 12px sans-serif'' ''center'' ''Current'' 4200 (- 655)
       \<in> set (bitmap (MapView_draw
            (Some (t\<lparr>route_coordinates := geo [(13 / 2, 17 / 5), (73 / 10, 39 / 10)],
                     current_location := \<lparr>lat = Num 9, lng = Num (37 / 5)\<rparr>\<rparr>))
            (reset_context 600 400)))"
proof -
  let ?pts = "[(13 / 2, 17 / 5), (73 / 10, 39 / 10)] :: (real \<times> real) list"
  let ?t = "t\<lparr>route_coordinates := geo ?pts, current_location := \<lparr>lat = Num 9, lng = Num (37 / 5)\<rparr>\<rparr>"
  have ne: "route_coordinates ?t \<noteq> []" by (simp add: geo_def)
  have p: "project 600 400 (geo ?pts) (Num 9) (Num (37 / 5)) = (Num 4200, Num (- 640))"
    by (subst project_geo) (simp_all add: Let_def)
  have m: "marker_paints (Num 4200, Num (- 640)) ''#10b981'' ''Current'' =
      [Fill ''#10b981'' [Arc 4200 (- 640) 8 0 (2 * pi)],
       Fill ''white'' [Arc 4200 (- 640) 4 0 (2 * pi)],
       FillText ''#1f2937'' ''bold 12px sans-serif'' ''center'' ''Current'' 4200 (- 655)]"
    by (simp add: marker_paints_def path_arc_def text_paint_def js_sub_def)
  have "bitmap (MapView_draw (Some ?t) (reset_context 600 400)) = route_paints 600 400 ?t"
    by (simp add: MapView_draw_route [OF ne] reset_context_def)
  then show ?thesis
    by (simp add: route_paints_def Let_def p m)
qed

text \<open>
  Claim C7, at the input where the code departs from it. A rest stop whose latitude or
  longitude is 0 is a finite location, yet the guard \<open>lat && lng\<close> takes 0 for a missing
  value: the map is drawn as if the trip had no such rest stop. The marker of the current
  location, which is drawn without the guard, does appear at latitude 0.
\<close>

theorem MapView_rest_stop_at_zero_skipped:
  "MapView_draw (Some (t\<lparr>rest_stops := [\<lparr>location = \<lparr>lat = Num 0, lng = Num (73 / 2)\<rparr>\<rparr>]\<rparr>)) c
     = MapView_draw (Some (t\<lparr>rest_stops := []\<rparr>)) c
   \<and> MapView_draw (Some (t\<lparr>rest_stops := [\<lparr>location = \<lparr>lat = Num (103 / 2), lng = Num 0\<rparr>\<rparr>]\<rparr>)) c
     = MapView_draw (Some (t\<lparr>rest_stops := []\<rparr>)) c
   \<and> Fill ''#10b981'' [Arc 300 200 8 0 (2 * pi)]
       \<in> set (bitmap (MapView_draw
            (Some (t\<lparr>route_coordinates := geo [(- 1, 36), (1, 37)],
                     current_location := \<lparr>lat = Num 0, lng = Num (73 / 2)\<rparr>\<rparr>))
            (reset_context 600 400)))"
proof -
  have skip: "MapView_draw (Some (t\<lparr>rest_stops := [s]\<rparr>)) c = MapView_draw (Some (t\<lparr>rest_stops := []\<rparr>)) c"
    if "\<not> stop_drawn s" for s
  proof (cases "route_coordinates t = []")
    case True
    then show ?thesis by (simp add: MapView_draw_placeholder)
  next
    case False
    then show ?thesis using that by (simp add: MapView_draw_route route_paints_def)
  qed
  let ?pts = "[(- 1, 36), (1, 37)] :: (real \<times> real) list"
  let ?t = "t\<lparr>route_coordinates := geo ?pts, current_location := \<lparr>lat = Num 0, lng = Num (73 / 2)\<rparr>\<rparr>"
  have ne: "route_coordinates ?t \<noteq> []" by (simp add: geo_def)
  have p: "project 600 400 (geo ?pts) (Num 0) (Num (73 / 2)) = (Num 300, Num 200)"
    by (subst project_geo) (simp_all add: Let_def)
  have "bitmap (MapView_draw (Some ?t) (reset_context 600 400)) = route_paints 600 400 ?t"
    by (simp add: MapView_draw_route [OF ne] reset_context_def)
  then have "Fill ''#10b981'' [Arc 300 200 8 0 (2 * pi)]
       \<in> set (bitmap (MapView_draw (Some ?t) (reset_context 600 400)))"
    by (simp add: route_paints_def Let_def p marker_paints_def path_arc_def)
  then show ?thesis
    by (simp add: skip stop_drawn_def)
qed


section \<open>Properties of \<open>ELDLogSheet\<close>\<close>

lemma draw_log_eq:
  "draw_log h entry c =
     c\<lparr>strokeStyle := getDutyStatusColor (status_string (duty_status entry)), lineWidth := 3,
       path := log_path entry, fillStyle := ''#000'', font := ''8px Arial'',
       textAlign := ''center'', bitmap := bitmap c @ log_paints h entry\<rparr>"
proof -
  obtain sx where sx: "hour_x (fractional_hour (start_time entry)) = sx" by simp
  obtain ex where ex: "hour_x (fractional_hour (end_time entry)) = ex" by simp
  show ?thesis
    unfolding draw_log_def log_paints_def log_path_def Let_def
      hour_x_def [symmetric] row_y_def [symmetric] sx ex
    by (cases sx; cases ex)
       (simp_all add: set_lineWidth_def beginPath_def moveTo_def lineTo_def stroke_def
          fillText_def text_paint_def path_moveTo_def path_lineTo_def)
qed

lemma fold_draw_log:
  "bitmap (fold (draw_log h) logs c) = bitmap c @ concat (map (log_paints h) logs)
   \<and> width (fold (draw_log h) logs c) = width c
   \<and> height (fold (draw_log h) logs c) = height c"
  by (induction logs arbitrary: c) (simp_all add: draw_log_eq)

lemma draw_totals_eq:
  "draw_totals h totals c =
     c\<lparr>strokeStyle := ''#000'', lineWidth := 1, fillStyle := ''#000'', font := ''12px Arial'',
       textAlign := ''left'', bitmap := bitmap c @ totals_paints h totals\<rparr>"
  by (simp add: draw_totals_def totals_paints_def Let_def set_lineWidth_def fillText_def
        totalsY_def gridY_def gridHeight_def)

lemma fold_draw_remark:
  assumes "fillStyle c = ''#000''" "textAlign c = ''left''"
  shows "bitmap (fst (fold (draw_remark h) logs (c, y))) = bitmap c @ remark_paints h (height c) y logs
   \<and> fillStyle (fst (fold (draw_remark h) logs (c, y))) = ''#000''
   \<and> textAlign (fst (fold (draw_remark h) logs (c, y))) = ''left''
   \<and> height (fst (fold (draw_remark h) logs (c, y))) = height c"
  using assms
proof (induction logs arbitrary: c y)
  case Nil
  then show ?case by simp
next
  case (Cons entry logs)
  show ?case
  proof (cases "remarks entry \<noteq> [] \<and> js_lt y (js_sub (Num (real (height c))) (Num 30))")
    case True
    define lab where "lab = formatTime h (start_time entry) @ '': '' @ remarks entry"
    define d where "d = fillText lab (Num 50) y (c\<lparr>font := ''10px Arial''\<rparr>)"
    have step: "draw_remark h entry (c, y) = (d, js_add y (Num 15))"
      using True by (simp add: draw_remark_def canvas_height_def Let_def d_def lab_def)
    have d: "fillStyle d = ''#000''" "textAlign d = ''left''" "height d = height c"
      "bitmap d = bitmap c @ text_paint ''#000'' ''10px Arial'' ''left'' lab (Num 50) y"
      using Cons.prems by (cases y; simp add: d_def fillText_def text_paint_def)+
    have "remark_paints h (height c) y (entry # logs) =
          text_paint ''#000'' ''10px Arial'' ''left'' lab (Num 50) y
          @ remark_paints h (height c) (js_add y (Num 15)) logs"
      using True by (simp add: lab_def)
    then show ?thesis
      using Cons.IH [OF d(1) d(2), of "js_add y (Num 15)"]
      by (simp only: fold_simps step d append_assoc)
  next
    case False
    have step: "draw_remark h entry (c, y) = (c, y)"
      using False by (auto simp: draw_remark_def canvas_height_def Let_def)
    have "remark_paints h (height c) y (entry # logs) = remark_paints h (height c) y logs"
      using False by auto
    then show ?thesis
      using Cons.IH [OF Cons.prems, of y] by (simp only: fold_simps step)
  qed
qed

lemma draw_remarks_eq:
  assumes "fillStyle c = ''#000''" "textAlign c = ''left''" "font c = ''12px Arial''" "height c = 600"
  shows "bitmap (draw_remarks h logs c) = bitmap c @ remarks_paints h logs
   \<and> fillStyle (draw_remarks h logs c) = ''#000''
   \<and> textAlign (draw_remarks h logs c) = ''left''
   \<and> height (draw_remarks h logs c) = 600"
proof -
  define d where "d = fillText ''REMARKS:'' (Num 50) (Num (totalsY + 50)) c"
  have d: "fillStyle d = ''#000''" "textAlign d = ''left''" "height d = 600"
    "bitmap d = bitmap c @ [FillText ''#000'' ''12px Arial'' ''left'' ''REMARKS:'' 50 490]"
    using assms by (simp_all add: d_def fillText_def totalsY_def gridY_def gridHeight_def)
  have r: "draw_remarks h logs c = fst (fold (draw_remark h) logs (d, Num 510))"
    by (simp add: draw_remarks_def Let_def d_def totalsY_def gridY_def gridHeight_def)
  show ?thesis
    using fold_draw_remark [OF d(1) d(2), of h logs "Num 510"]
    by (simp only: r d remarks_paints_def append_assoc)
qed

lemma draw_signature_eq:
  assumes "fillStyle c = ''#000''" "textAlign c = ''left''" "height c = 600"
  shows "bitmap (draw_signature h logDate c) = bitmap c @ signature_paints h logDate"
  using assms
  by (simp add: draw_signature_def signature_paints_def Let_def fillText_def canvas_height_def
        js_sub_def set_lineWidth_def)

lemma template_size: "width (draw_template h trip logDate) = 800 \<and> height (draw_template h trip logDate) = 600"
  by (simp add: draw_template_def draw_hour_labels_def draw_status_labels_def draw_grid_def
        draw_header_def reset_context_def Let_def fillText_def fillRect_def set_lineWidth_def
        canvas_width_def canvas_height_def moveTo_def lineTo_def beginPath_def stroke_def
        upt_rec [of _ "numeral _"])


lemma draw_sheet_bitmap:
  "bitmap (ELDLogSheet_draw h trip logDate c) = sheet_paints h trip logDate"
proof -
  define t0 where "t0 = draw_template h trip logDate"
  define t1 where "t1 = fold (draw_log h) (eld_logs trip) t0"
  define t2 where "t2 = draw_totals h (calc_totals (eld_logs trip)) t1"
  define t3 where "t3 = draw_remarks h (eld_logs trip) t2"
  have sheet: "ELDLogSheet_draw h trip logDate c = draw_signature h logDate t3"
    by (simp add: ELDLogSheet_draw_def draw_sheet_def Let_def set_width_def set_height_def
          reset_context_def t3_def t2_def t1_def t0_def draw_template_def dailyLogs_def)
  have b1: "bitmap t1 = bitmap t0 @ concat (map (log_paints h) (eld_logs trip))"
    and h1: "height t1 = 600"
    using fold_draw_log [of h "eld_logs trip" t0] template_size [of h trip logDate]
    by (simp_all add: t1_def t0_def)
  have s2: "fillStyle t2 = ''#000''" "textAlign t2 = ''left''" "font t2 = ''12px Arial''"
    "height t2 = 600"
    "bitmap t2 = bitmap t1 @ totals_paints h (calc_totals (eld_logs trip))"
    by (simp_all add: t2_def draw_totals_eq h1)
  have s3: "bitmap t3 = bitmap t2 @ remarks_paints h (eld_logs trip)"
    "fillStyle t3 = ''#000''" "textAlign t3 = ''left''" "height t3 = 600"
    using draw_remarks_eq [OF s2(1-4), of h "eld_logs trip"] by (simp_all add: t3_def)
  show ?thesis
    unfolding sheet draw_signature_eq [OF s3(2-4)] s3(1) s2(5) b1
    by (simp add: sheet_paints_def t0_def)
qed

lemma ELDLogSheet_draw_fresh:
  "ELDLogSheet_draw h trip logDate c = ELDLogSheet_draw h trip logDate c'"
  by (simp add: ELDLogSheet_draw_def set_width_def set_height_def reset_context_def)

lemma segments_append [simp]: "segments (xs @ ys) = segments xs @ segments ys"
  by (simp add: segments_def)

lemma segments_Nil [simp]: "segments [] = []"
  by (simp add: segments_def)

lemma segments_Cons: "segments (p # ps) = paint_segments p @ segments ps"
  by (simp add: segments_def)

lemma segments_text_paint [simp]: "segments (text_paint s f a t x y) = []"
  by (cases x; cases y) (simp_all add: text_paint_def segments_def)

lemma segments_remark_paints [simp]: "segments (remark_paints h H y logs) = []"
  by (induction logs arbitrary: y) simp_all

lemma segments_fixed_paints [simp]:
  "segments (totals_paints h totals) = []"
  "segments (remarks_paints h logs) = []"
  "segments (signature_paints h logDate) = []"
  by (simp_all add: totals_paints_def remarks_paints_def signature_paints_def segments_Cons)

lemma segments_log_paints:
  "segments (log_paints h entry) =
     map (Pair (getDutyStatusColor (status_string (duty_status entry))))
       (segments_from None (log_path entry))"
  by (simp add: log_paints_def segments_Cons)

lemma hour_x_NaN [simp]: "hour_x NaN = NaN"
  by (simp add: hour_x_def)


lemma draw_template_logs [simp]:
  "draw_template h (trip\<lparr>eld_logs := logs\<rparr>) logDate = draw_template h trip logDate"
  by (simp add: draw_template_def draw_header_def)

lemma segments_sheet:
  "segments (sheet_paints h trip logDate) =
     segments (bitmap (draw_template h trip logDate))
     @ concat (map (\<lambda>entry. segments (log_paints h entry)) (eld_logs trip))"
proof -
  have "segments (concat (map (log_paints h) logs)) =
        concat (map (\<lambda>entry. segments (log_paints h entry)) logs)" for logs
    by (induction logs) simp_all
  then show ?thesis by (simp add: sheet_paints_def)
qed

lemma template_strokes:
  "map fst (segments (bitmap (draw_template h trip logDate))) = replicate 30 ''#000''"
  by (simp add: draw_template_def draw_hour_labels_def draw_status_labels_def draw_grid_def
        draw_header_def reset_context_def Let_def fillText_def fillRect_def set_lineWidth_def
        canvas_width_def canvas_height_def moveTo_def lineTo_def beginPath_def stroke_def
        path_moveTo_def path_lineTo_def segments_def
        upt_rec [of _ "numeral _"] eval_nat_numeral)


lemma draw_log_log_date [simp]: "draw_log h (entry\<lparr>log_date := x\<rparr>) = draw_log h entry"
  by (rule ext) (simp add: draw_log_def Let_def)

lemma add_total_log_date [simp]: "add_total (entry\<lparr>log_date := x\<rparr>) = add_total entry"
  by (rule ext) (simp add: add_total_def split: duty_status_t.splits)

lemma draw_remark_log_date [simp]: "draw_remark h (entry\<lparr>log_date := x\<rparr>) = draw_remark h entry"
  by (rule ext) (simp add: draw_remark_def Let_def)

lemma draw_sheet_log_dates:
  "draw_sheet h (trip\<lparr>eld_logs := map (\<lambda>entry. entry\<lparr>log_date := f entry\<rparr>) (eld_logs trip)\<rparr>) logDate c
     = draw_sheet h trip logDate c"
  by (simp add: draw_sheet_def dailyLogs_def draw_header_def draw_remarks_def calc_totals_def
        fold_map comp_def Let_def)

text \<open>
  Claim C1. The log sheet does not filter the logs by the date it is drawn for: the logs
  it processes are all the \<open>eld_logs\<close> of the trip; the bitmap of the sheet is the
  template followed by the line and labels of every log, the totals over every log and
  the remark lines of every log; and the sheet stays the same when the \<open>log_date\<close> of
  the entries is changed at will.
\<close>

theorem ELDLogSheet_draws_all_logs:
  "dailyLogs trip logDate = eld_logs trip
   \<and> bitmap (ELDLogSheet_draw h trip logDate c) =
       bitmap (draw_template h trip logDate)
       @ concat (map (log_paints h) (eld_logs trip))
       @ totals_paints h (calc_totals (eld_logs trip))
       @ remarks_paints h (eld_logs trip)
       @ signature_paints h logDate
   \<and> ELDLogSheet_draw h
         (trip\<lparr>eld_logs := map (\<lambda>entry. entry\<lparr>log_date := f entry\<rparr>) (eld_logs trip)\<rparr>) logDate c
       = ELDLogSheet_draw h trip logDate c"
proof -
  have "ELDLogSheet_draw h
         (trip\<lparr>eld_logs := map (\<lambda>entry. entry\<lparr>log_date := f entry\<rparr>) (eld_logs trip)\<rparr>) logDate c
       = ELDLogSheet_draw h trip logDate c"
    by (simp add: ELDLogSheet_draw_def draw_sheet_log_dates Let_def)
  then show ?thesis
    by (simp add: dailyLogs_def draw_sheet_bitmap sheet_paints_def)
qed

lemma add_total_sel:
  "total_off_duty (add_total entry T) =
     (if duty_status entry = off_duty then js_add (total_off_duty T) (duration_hours entry)
      else total_off_duty T)"
  "total_sleeper_berth (add_total entry T) =
     (if duty_status entry = sleeper_berth then js_add (total_sleeper_berth T) (duration_hours entry)
      else total_sleeper_berth T)"
  "total_driving (add_total entry T) =
     (if duty_status entry = driving then js_add (total_driving T) (duration_hours entry)
      else total_driving T)"
  "total_on_duty (add_total entry T) =
     (if duty_status entry = on_duty then js_add (total_on_duty T) (duration_hours entry)
      else total_on_duty T)"
  by (cases "duty_status entry"; simp add: add_total_def)+

lemma fold_add_total:
  "total_off_duty (fold add_total logs T) =
     foldl js_add (total_off_duty T) (map duration_hours [entry \<leftarrow> logs. duty_status entry = off_duty])
   \<and> total_sleeper_berth (fold add_total logs T) =
     foldl js_add (total_sleeper_berth T) (map duration_hours [entry \<leftarrow> logs. duty_status entry = sleeper_berth])
   \<and> total_driving (fold add_total logs T) =
     foldl js_add (total_driving T) (map duration_hours [entry \<leftarrow> logs. duty_status entry = driving])
   \<and> total_on_duty (fold add_total logs T) =
     foldl js_add (total_on_duty T) (map duration_hours [entry \<leftarrow> logs. duty_status entry = on_duty])"
proof (induction logs arbitrary: T)
  case Nil
  then show ?case by simp
next
  case (Cons entry logs)
  show ?case
    by (simp add: Cons.IH add_total_sel)
qed

lemma foldl_js_add_Num: "foldl js_add (Num a) (map Num ds) = Num (a + sum_list ds)"
  by (induction ds arbitrary: a) (simp_all add: add.assoc)

lemma add_total_times [simp]:
  "add_total (entry\<lparr>start_time := x, end_time := y\<rparr>) = add_total entry"
  by (rule ext) (simp add: add_total_def split: duty_status_t.splits)

lemma sheet_paints_totals:
  "set (totals_paints h (calc_totals (eld_logs trip))) \<subseteq> set (sheet_paints h trip logDate)"
  by (auto simp: sheet_paints_def)

text \<open>
  Claim C5. Each of the four totals is the sum (by \<open>+\<close> on numbers, from 0, in list
  order) of the \<open>duration_hours\<close> of the processed entries with that status; on finite
  durations that is their sum as reals. The totals of no entry are all 0. The start and
  end times do not enter the totals. The sheet shows the four totals, each printed by
  \<open>toFixed(1)\<close>.
\<close>

theorem ELDLogSheet_totals:
  "total_off_duty (calc_totals logs) =
     foldl js_add (Num 0) (map duration_hours [entry \<leftarrow> logs. duty_status entry = off_duty])
   \<and> total_sleeper_berth (calc_totals logs) =
     foldl js_add (Num 0) (map duration_hours [entry \<leftarrow> logs. duty_status entry = sleeper_berth])
   \<and> total_driving (calc_totals logs) =
     foldl js_add (Num 0) (map duration_hours [entry \<leftarrow> logs. duty_status entry = driving])
   \<and> total_on_duty (calc_totals logs) =
     foldl js_add (Num 0) (map duration_hours [entry \<leftarrow> logs. duty_status entry = on_duty])
   \<and> foldl js_add (Num 0) (map Num ds) = Num (sum_list ds)
   \<and> calc_totals [] = \<lparr>total_off_duty = Num 0, total_sleeper_berth = Num 0,
                         total_driving = Num 0, total_on_duty = Num 0\<rparr>
   \<and> calc_totals (map (\<lambda>entry. entry\<lparr>start_time := f entry, end_time := g entry\<rparr>) logs)
       = calc_totals logs
   \<and> set [FillText ''#000'' ''12px Arial'' ''left''
             (''Off Duty: '' @ toFixed1 h (total_off_duty (calc_totals (eld_logs trip))) @ '' hrs'') 50 460,
           FillText ''#000'' ''12px Arial'' ''left''
             (''Sleeper Berth: '' @ toFixed1 h (total_sleeper_berth (calc_totals (eld_logs trip))) @ '' hrs'') 200 460,
           FillText ''#000'' ''12px Arial'' ''left''
             (''Driving: '' @ toFixed1 h (total_driving (calc_totals (eld_logs trip))) @ '' hrs'') 350 460,
           FillText ''#000'' ''12px Arial'' ''left''
             (''On Duty: '' @ toFixed1 h (total_on_duty (calc_totals (eld_logs trip))) @ '' hrs'') 500 460]
       \<subseteq> set (bitmap (ELDLogSheet_draw h trip logDate c))"
proof -
  have sums: "total_off_duty (calc_totals logs) =
     foldl js_add (Num 0) (map duration_hours [entry \<leftarrow> logs. duty_status entry = off_duty])
   \<and> total_sleeper_berth (calc_totals logs) =
     foldl js_add (Num 0) (map duration_hours [entry \<leftarrow> logs. duty_status entry = sleeper_berth])
   \<and> total_driving (calc_totals logs) =
     foldl js_add (Num 0) (map duration_hours [entry \<leftarrow> logs. duty_status entry = driving])
   \<and> total_on_duty (calc_totals logs) =
     foldl js_add (Num 0) (map duration_hours [entry \<leftarrow> logs. duty_status entry = on_duty])"
    unfolding calc_totals_def
    using fold_add_total [of logs "\<lparr>total_off_duty = Num 0, total_sleeper_berth = Num 0,
                         total_driving = Num 0, total_on_duty = Num 0\<rparr>"]
    by simp
  have fin: "foldl js_add (Num 0) (map Num ds) = Num (sum_list ds)"
    by (simp add: foldl_js_add_Num)
  have empty: "calc_totals [] = \<lparr>total_off_duty = Num 0, total_sleeper_berth = Num 0,
                         total_driving = Num 0, total_on_duty = Num 0\<rparr>"
    by (simp add: calc_totals_def)
  have times: "calc_totals (map (\<lambda>entry. entry\<lparr>start_time := f entry, end_time := g entry\<rparr>) logs)
       = calc_totals logs"
    by (simp add: calc_totals_def fold_map comp_def)
  have shown: "set [FillText ''#000'' ''12px Arial'' ''left''
             (''Off Duty: '' @ toFixed1 h (total_off_duty (calc_totals (eld_logs trip))) @ '' hrs'') 50 460,
           FillText ''#000'' ''12px Arial'' ''left''
             (''Sleeper Berth: '' @ toFixed1 h (total_sleeper_berth (calc_totals (eld_logs trip))) @ '' hrs'') 200 460,
           FillText ''#000'' ''12px Arial'' ''left''
             (''Driving: '' @ toFixed1 h (total_driving (calc_totals (eld_logs trip))) @ '' hrs'') 350 460,
           FillText ''#000'' ''12px Arial'' ''left''
             (''On Duty: '' @ toFixed1 h (total_on_duty (calc_totals (eld_logs trip))) @ '' hrs'') 500 460]
       \<subseteq> set (bitmap (ELDLogSheet_draw h trip logDate c))"
    using sheet_paints_totals [of h trip logDate]
    by (simp add: draw_sheet_bitmap totals_paints_def)
  from sums fin empty times shown show ?thesis by blast
qed

lemma fractional_hour_examples:
  "fractional_hour ''08:00'' = Num 8" "fractional_hour ''10:30'' = Num (21 / 2)"
  "fractional_hour ''abc'' = NaN"
  by (simp_all add: fractional_hour_def parseFloat_element_def element_def parseFloat_def
        is_space_def is_digit_def digits_value_def digit_value_def exponent_part_def
        scale10_def Let_def)







lemma filter_replicate_other: "a \<noteq> b \<Longrightarrow> [s \<leftarrow> xs. fst s = a] = [] " if "map fst xs = replicate n b"
proof -
  have "\<forall>s \<in> set xs. fst s = b"
    using that by (metis in_set_replicate set_map imageI)
  then show "a \<noteq> b \<Longrightarrow> [s \<leftarrow> xs. fst s = a] = []"
    by (auto simp: filter_empty_conv)
qed

text \<open>
  Claim C9. For the single entry with status \<open>driving\<close> from \<open>08:00\<close> to \<open>10:30\<close> and
  \<open>duration_hours = 2.5\<close>, the fractional hours are 8 and 10.5, the row index is 2 and
  the colour is the red \<open>#ef4444\<close>; the sheet has exactly one red segment, from the
  x position of hour 8 to that of hour 10.5 at the mid-height of row 2; the driving
  total is 2.5 and the other three are 0, and the sheet shows them.
\<close>

theorem ELDLogSheet_example_driving_entry:
  "fractional_hour ''08:00'' = Num 8
   \<and> fractional_hour ''10:30'' = Num (21 / 2)
   \<and> statusRow driving = 2
   \<and> getDutyStatusColor (status_string driving) = ''#ef4444''
   \<and> hour_x (Num 8) = Num (startX + 8 / 24 * gridWidth)
   \<and> hour_x (Num (21 / 2)) = Num (startX + (21 / 2) / 24 * gridWidth)
   \<and> [s \<leftarrow> segments (bitmap (ELDLogSheet_draw h
          (trip\<lparr>eld_logs := [\<lparr>log_date = d, duty_status = driving, start_time = ''08:00'',
                                 end_time = ''10:30'', duration_hours = Num (5 / 2),
                                 remarks = r\<rparr>]\<rparr>) logDate c)).
        fst s = ''#ef4444'']
       = [(''#ef4444'', (startX + 8 / 24 * gridWidth, gridY + 2 * gridHeight / 4 + gridHeight / 8),
                        (startX + (21 / 2) / 24 * gridWidth, gridY + 2 * gridHeight / 4 + gridHeight / 8))]
   \<and> calc_totals [\<lparr>log_date = d, duty_status = driving, start_time = ''08:00'',
                     end_time = ''10:30'', duration_hours = Num (5 / 2), remarks = r\<rparr>]
       = \<lparr>total_off_duty = Num 0, total_sleeper_berth = Num 0,
          total_driving = Num (5 / 2), total_on_duty = Num 0\<rparr>
   \<and> set [FillText ''#000'' ''12px Arial'' ''left'' (''Off Duty: '' @ toFixed1 h (Num 0) @ '' hrs'') 50 460,
           FillText ''#000'' ''12px Arial'' ''left'' (''Sleeper Berth: '' @ toFixed1 h (Num 0) @ '' hrs'') 200 460,
           FillText ''#000'' ''12px Arial'' ''left'' (''Driving: '' @ toFixed1 h (Num (5 / 2)) @ '' hrs'') 350 460,
           FillText ''#000'' ''12px Arial'' ''left'' (''On Duty: '' @ toFixed1 h (Num 0) @ '' hrs'') 500 460]
       \<subseteq> set (bitmap (ELDLogSheet_draw h
          (trip\<lparr>eld_logs := [\<lparr>log_date = d, duty_status = driving, start_time = ''08:00'',
                                 end_time = ''10:30'', duration_hours = Num (5 / 2),
                                 remarks = r\<rparr>]\<rparr>) logDate c))"
proof -
  let ?e = "\<lparr>log_date = d, duty_status = driving, start_time = ''08:00'',
             end_time = ''10:30'', duration_hours = Num (5 / 2), remarks = r\<rparr>"
  let ?t = "trip\<lparr>eld_logs := [?e]\<rparr>"
  have tot: "calc_totals [?e] = \<lparr>total_off_duty = Num 0, total_sleeper_berth = Num 0,
          total_driving = Num (5 / 2), total_on_duty = Num 0\<rparr>"
    by (simp add: calc_totals_def add_total_def)
  have hx: "hour_x (Num 8) = Num (startX + 8 / 24 * gridWidth)"
    "hour_x (Num (21 / 2)) = Num (startX + (21 / 2) / 24 * gridWidth)"
    by (simp_all add: hour_x_def)
  have path: "log_path ?e =
      [MoveTo (startX + 8 / 24 * gridWidth) (gridY + 2 * gridHeight / 4 + gridHeight / 8),
       LineTo (startX + (21 / 2) / 24 * gridWidth) (gridY + 2 * gridHeight / 4 + gridHeight / 8)]"
    by (simp add: log_path_def fractional_hour_examples hx row_y_def path_moveTo_def path_lineTo_def)
  have seg: "segments (log_paints h ?e) =
      [(''#ef4444'', (startX + 8 / 24 * gridWidth, gridY + 2 * gridHeight / 4 + gridHeight / 8),
                     (startX + (21 / 2) / 24 * gridWidth, gridY + 2 * gridHeight / 4 + gridHeight / 8))]"
    by (simp add: segments_log_paints path getDutyStatusColor_def)
  have tmpl: "[s \<leftarrow> segments (bitmap (draw_template h trip logDate)). fst s = ''#ef4444''] = []"
    by (rule filter_replicate_other [OF template_strokes]) simp
  have red: "[s \<leftarrow> segments (bitmap (ELDLogSheet_draw h ?t logDate c)). fst s = ''#ef4444'']
       = [(''#ef4444'', (startX + 8 / 24 * gridWidth, gridY + 2 * gridHeight / 4 + gridHeight / 8),
                        (startX + (21 / 2) / 24 * gridWidth, gridY + 2 * gridHeight / 4 + gridHeight / 8))]"
    by (simp add: draw_sheet_bitmap segments_sheet tmpl seg)
  have shown: "set [FillText ''#000'' ''12px Arial'' ''left'' (''Off Duty: '' @ toFixed1 h (Num 0) @ '' hrs'') 50 460,
           FillText ''#000'' ''12px Arial'' ''left'' (''Sleeper Berth: '' @ toFixed1 h (Num 0) @ '' hrs'') 200 460,
           FillText ''#000'' ''12px Arial'' ''left'' (''Driving: '' @ toFixed1 h (Num (5 / 2)) @ '' hrs'') 350 460,
           FillText ''#000'' ''12px Arial'' ''left'' (''On Duty: '' @ toFixed1 h (Num 0) @ '' hrs'') 500 460]
       \<subseteq> set (bitmap (ELDLogSheet_draw h ?t logDate c))"
    using sheet_paints_totals [of h ?t logDate]
    by (simp add: draw_sheet_bitmap totals_paints_def tot)
  have "getDutyStatusColor (status_string driving) = ''#ef4444''"
    by (simp add: getDutyStatusColor_def)
  with fractional_hour_examples(1,2) hx red tot shown show ?thesis
    by simp
qed

section \<open>Drawing twice\<close>

text \<open>
  Claim C8. Both renderers are idempotent: drawing the same input a second time on the
  same canvas leaves the canvas (context state and bitmap) as the first drawing left it.
  \<open>MapView\<close> clears the whole bitmap first, so what was on it before does not
  matter; \<open>ELDLogSheet\<close> sets the size of the canvas, which resets it, so its result
  does not depend on the canvas it starts from at all.
\<close>

theorem renderers_idempotent:
  "MapView_draw trip (MapView_draw trip c) = MapView_draw trip c
   \<and> MapView_effect trip (MapView_effect trip canvasRef) = MapView_effect trip canvasRef
   \<and> MapView_draw trip (c\<lparr>bitmap := b\<rparr>) = MapView_draw trip c
   \<and> ELDLogSheet_draw h t logDate (ELDLogSheet_draw h t logDate c) = ELDLogSheet_draw h t logDate c
   \<and> ELDLogSheet_effect h t logDate (ELDLogSheet_effect h t logDate canvasRef)
       = ELDLogSheet_effect h t logDate canvasRef
   \<and> ELDLogSheet_draw h t logDate c = ELDLogSheet_draw h t logDate c'"
proof -
  have e: "ELDLogSheet_draw h t logDate x = ELDLogSheet_draw h t logDate y" for x y
    by (rule ELDLogSheet_draw_fresh)
  have "MapView_effect trip (MapView_effect trip canvasRef) = MapView_effect trip canvasRef"
    by (cases canvasRef) (simp_all add: MapView_effect_def MapView_draw_idem)
  moreover have "ELDLogSheet_effect h t logDate (ELDLogSheet_effect h t logDate canvasRef)
       = ELDLogSheet_effect h t logDate canvasRef"
    by (cases canvasRef) (simp_all add: ELDLogSheet_effect_def e [of "ELDLogSheet_draw h t logDate _"])
  ultimately show ?thesis
    using MapView_draw_idem MapView_draw_bitmap_update
      e [of "ELDLogSheet_draw h t logDate c" c] e [of c c']
    by simp
qed

end
